theory Spec2Isabelle
  imports Complex_Main
begin

section \<open>The JavaScript values the proxy handles\<close>

text \<open>
  The repository holds two variants of one Express server: \<^verbatim>\<open>src/index.js\<close> and
  \<^verbatim>\<open>src/unnamed/part_000\<close>. They agree on \<^verbatim>\<open>checkAuth\<close>, \<^verbatim>\<open>hmac\<close> and the five
  handlers; they differ in the day-range resolver (\<^verbatim>\<open>getDayRangeUTC\<close> in the first,
  \<^verbatim>\<open>getDayRange\<close> in the second).

  A JavaScript number is a binary64 value: \<open>NaN\<close>, an infinity, or a finite value, which
  is modelled by the real number it stands for. \<open>-0\<close> is identified with \<open>0\<close> (the two
  print alike in a JSON response). Every operation that binary64 arithmetic rounds is
  rounded here by \<open>round64\<close>.
\<close>

datatype number = NaN | PosInf | NegInf | Finite real

text \<open>
  Rounding a real number to binary64, to the nearest value and at a tie to the one with
  an even significand. A number in the binade \<open>2\<^sup>b \<le> \<bar>x\<bar> < 2\<^sup>b\<^sup>+\<^sup>1\<close> is rounded to a multiple
  of \<open>2\<^sup>b\<^sup>-\<^sup>5\<^sup>2\<close> (of \<open>2\<^sup>-\<^sup>1\<^sup>0\<^sup>7\<^sup>4\<close> below the normal range), and a result of magnitude \<open>2\<^sup>1\<^sup>0\<^sup>2\<^sup>4\<close>
  is an infinity.
\<close>

definition pow2 :: "int \<Rightarrow> real" where
  "pow2 e = (if 0 \<le> e then 2 ^ nat e else 1 / 2 ^ nat (- e))"

definition binade :: "real \<Rightarrow> int" where
  "binade x = \<lfloor>log 2 \<bar>x\<bar>\<rfloor>"

definition ulp_exponent :: "real \<Rightarrow> int" where
  "ulp_exponent x = max (binade x) (- 1022) - 52"

definition ties_to_even :: "real \<Rightarrow> int" where
  "ties_to_even r =
     (if r - of_int \<lfloor>r\<rfloor> < 1 / 2 then \<lfloor>r\<rfloor>
      else if 1 / 2 < r - of_int \<lfloor>r\<rfloor> then \<lfloor>r\<rfloor> + 1
      else if even \<lfloor>r\<rfloor> then \<lfloor>r\<rfloor> else \<lfloor>r\<rfloor> + 1)"

definition round64 :: "real \<Rightarrow> number" where
  "round64 x =
     (if x = 0 then Finite 0
      else let r = of_int (ties_to_even (x / pow2 (ulp_exponent x))) * pow2 (ulp_exponent x)
           in if pow2 1024 \<le> \<bar>r\<bar> then (if 0 < x then PosInf else NegInf) else Finite r)"

text \<open>The \<^verbatim>\<open>+\<close> of two numbers.\<close>

fun add :: "number \<Rightarrow> number \<Rightarrow> number" where
  "add NaN y = NaN"
| "add x NaN = NaN"
| "add PosInf NegInf = NaN"
| "add NegInf PosInf = NaN"
| "add PosInf y = PosInf"
| "add x PosInf = PosInf"
| "add NegInf y = NegInf"
| "add x NegInf = NegInf"
| "add (Finite a) (Finite b) = round64 (a + b)"

text \<open>Unary minus, and \<^verbatim>\<open>x - y\<close> as \<open>x + (-y)\<close>.\<close>

fun neg :: "number \<Rightarrow> number" where
  "neg NaN = NaN"
| "neg PosInf = NegInf"
| "neg NegInf = PosInf"
| "neg (Finite a) = Finite (- a)"

definition sub :: "number \<Rightarrow> number \<Rightarrow> number" where
  "sub x y = add x (neg y)"

text \<open>The \<^verbatim>\<open>*\<close> of two numbers: an infinity times zero is \<open>NaN\<close>.\<close>

fun inf_times :: "bool \<Rightarrow> real \<Rightarrow> number" where
  "inf_times positive b =
     (if b = 0 then NaN else if (0 < b) = positive then PosInf else NegInf)"

fun mul :: "number \<Rightarrow> number \<Rightarrow> number" where
  "mul NaN y = NaN"
| "mul x NaN = NaN"
| "mul (Finite a) (Finite b) = round64 (a * b)"
| "mul PosInf (Finite b) = inf_times True b"
| "mul NegInf (Finite b) = inf_times False b"
| "mul (Finite a) PosInf = inf_times True a"
| "mul (Finite a) NegInf = inf_times False a"
| "mul PosInf PosInf = PosInf"
| "mul NegInf NegInf = PosInf"
| "mul PosInf NegInf = NegInf"
| "mul NegInf PosInf = NegInf"

text \<open>\<^verbatim>\<open>x >= 0\<close>: every comparison with \<open>NaN\<close> is false.\<close>

fun ge0 :: "number \<Rightarrow> bool" where
  "ge0 NaN = False"
| "ge0 PosInf = True"
| "ge0 NegInf = False"
| "ge0 (Finite a) = (0 \<le> a)"

fun Math_abs :: "number \<Rightarrow> number" where
  "Math_abs NaN = NaN"
| "Math_abs PosInf = PosInf"
| "Math_abs NegInf = PosInf"
| "Math_abs (Finite a) = Finite \<bar>a\<bar>"

fun Math_floor :: "number \<Rightarrow> number" where
  "Math_floor (Finite a) = Finite (of_int \<lfloor>a\<rfloor>)"
| "Math_floor x = x"

text \<open>
  \<^verbatim>\<open>Math.round\<close> gives the nearest integer, a half towards \<open>+\<infinity>\<close>; like \<^verbatim>\<open>Math.floor\<close> and
  \<^verbatim>\<open>Math.abs\<close> it is exact.
\<close>

fun Math_round :: "number \<Rightarrow> number" where
  "Math_round (Finite a) = Finite (of_int \<lfloor>a + 1 / 2\<rfloor>)"
| "Math_round x = x"

text \<open>
  \<^verbatim>\<open>Number(x.toFixed(2))\<close>, the expression that rounds both volumes. \<^verbatim>\<open>toFixed(2)\<close>
  prints the integer \<open>n\<close> for which \<open>n / 100\<close> is nearest to \<open>\<bar>x\<bar>\<close> (the larger one at a
  tie) with two decimals and the sign of \<open>x\<close>, and \<^verbatim>\<open>Number\<close> reads the text back, which
  rounds the decimal to binary64. From \<open>10\<^sup>2\<^sup>1\<close> on, and for \<open>NaN\<close> and the infinities,
  \<^verbatim>\<open>toFixed\<close> prints the number as \<^verbatim>\<open>String\<close> does, and \<^verbatim>\<open>Number\<close> gives the same number
  back.
\<close>

definition toFixed2_hundredths :: "real \<Rightarrow> int" where
  "toFixed2_hundredths a = \<lfloor>\<bar>a\<bar> * 100 + 1 / 2\<rfloor>"

fun Number_toFixed2 :: "number \<Rightarrow> number" where
  "Number_toFixed2 (Finite a) =
     (if 10 ^ 21 \<le> \<bar>a\<bar> then Finite a
      else round64 (sgn a * of_int (toFixed2_hundredths a) / 100))"
| "Number_toFixed2 x = x"

section \<open>The runtime\<close>

text \<open>
  The parts of the runtime that neither source defines and that are not modelled here:
  the keyed hash behind
  \<^verbatim>\<open>crypto.createHmac("sha256", secret).update(message).digest("hex")\<close>; what
  \<^verbatim>\<open>new Date(s).getTime()\<close> gives for a text outside the date-time format of ECMAScript,
  which every implementation reads in its own way; the text \<^verbatim>\<open>String(x)\<close> of a finite
  number that is no integer below \<open>10\<^sup>2\<^sup>1\<close>; and \<^verbatim>\<open>s.toUpperCase()\<close> for a text with
  characters outside ASCII. A time value is an integer of milliseconds, or \<open>NaN\<close>, here
  \<open>None\<close>.
\<close>

type_synonym timevalue = "int option"

record runtime =
  hmac_sha256_hex :: "string \<Rightarrow> string \<Rightarrow> string"
  legacy_date_parse :: "string \<Rightarrow> timevalue"
  Number_toString :: "real \<Rightarrow> string"
  unicode_toUpperCase :: "string \<Rightarrow> string"

section \<open>Strings and decimal digits\<close>

text \<open>
  A string is modelled by the bytes of its UTF-8 text, so a character outside ASCII is
  two bytes or more, each of them 128 or above.
\<close>

definition is_ascii :: "char \<Rightarrow> bool" where
  "is_ascii c = ((of_char c :: nat) < 128)"

definition is_digit :: "char \<Rightarrow> bool" where
  "is_digit c = (c \<in> set ''0123456789'')"

definition digit_val :: "char \<Rightarrow> nat" where
  "digit_val c = of_char c - 48"

definition digit_char :: "nat \<Rightarrow> char" where
  "digit_char d = ''0123456789'' ! d"

definition nat_of_digits :: "string \<Rightarrow> nat" where
  "nat_of_digits s = foldl (\<lambda>a c. 10 * a + digit_val c) 0 s"

text \<open>\<^verbatim>\<open>String(n)\<close> of an integer: its decimal digits, a minus sign before a negative one.\<close>

fun String_nat :: "nat \<Rightarrow> string" where
  "String_nat n =
     (if n < 10 then [digit_char n] else String_nat (n div 10) @ [digit_char (n mod 10)])"

declare String_nat.simps [simp del]

definition String_int :: "int \<Rightarrow> string" where
  "String_int i = (if i < 0 then CHR ''-'' # String_nat (nat (- i)) else String_nat (nat i))"

text \<open>
  \<^verbatim>\<open>String(x)\<close> of a number: an integer below \<open>10\<^sup>2\<^sup>1\<close> prints all its digits; the text of
  every other finite number is the runtime's.
\<close>

fun String_number :: "runtime \<Rightarrow> number \<Rightarrow> string" where
  "String_number rt NaN = ''NaN''"
| "String_number rt PosInf = ''Infinity''"
| "String_number rt NegInf = ''-Infinity''"
| "String_number rt (Finite a) =
     (if a = of_int \<lfloor>a\<rfloor> \<and> \<bar>a\<bar> < 10 ^ 21 then String_int \<lfloor>a\<rfloor> else Number_toString rt a)"

text \<open>\<^verbatim>\<open>s.padStart(2, "0")\<close>.\<close>

definition padStart2 :: "string \<Rightarrow> string" where
  "padStart2 s = replicate (2 - length s) (CHR ''0'') @ s"

text \<open>
  \<^verbatim>\<open>s.toUpperCase()\<close>: in an ASCII text the letters \<open>a\<close> to \<open>z\<close> become \<open>A\<close> to \<open>Z\<close> and
  nothing else changes; the upper case of any other text is the runtime's.
\<close>

definition upper_char :: "char \<Rightarrow> char" where
  "upper_char c =
     (case map_of (zip ''abcdefghijklmnopqrstuvwxyz'' ''ABCDEFGHIJKLMNOPQRSTUVWXYZ'') c of
        None \<Rightarrow> c | Some u \<Rightarrow> u)"

definition toUpperCase :: "runtime \<Rightarrow> string \<Rightarrow> string" where
  "toUpperCase rt s = (if list_all is_ascii s then map upper_char s else unicode_toUpperCase rt s)"

text \<open>
  \<^verbatim>\<open>encodeURIComponent(s)\<close>: letters, digits and \<^verbatim>\<open>- _ . ! ~ * ' ( )\<close> stay, every other
  byte of the UTF-8 text becomes \<^verbatim>\<open>%XX\<close> with upper-case hexadecimal digits.
\<close>

definition uri_unreserved :: "char \<Rightarrow> bool" where
  "uri_unreserved c =
     (c \<in> set (''abcdefghijklmnopqrstuvwxyz'' @ ''ABCDEFGHIJKLMNOPQRSTUVWXYZ'' @
                ''0123456789'' @ ''-_.!~*'' @ [CHR 0x27] @ ''()''))"

definition hex_char :: "nat \<Rightarrow> char" where
  "hex_char d = ''0123456789ABCDEF'' ! d"

definition encode_char :: "char \<Rightarrow> string" where
  "encode_char c =
     (if uri_unreserved c then [c]
      else [CHR ''%'', hex_char (of_char c div 16), hex_char (of_char c mod 16)])"

definition encodeURIComponent :: "string \<Rightarrow> string" where
  "encodeURIComponent s = concat (map encode_char s)"

section \<open>\<^verbatim>\<open>Number(string)\<close>\<close>

text \<open>
  The conversion of a string to a number (ECMAScript \<^verbatim>\<open>StringToNumber\<close>): white space is
  trimmed; the empty string is \<open>0\<close>; \<^verbatim>\<open>0x\<close>, \<^verbatim>\<open>0o\<close> and \<^verbatim>\<open>0b\<close> literals take no sign; a
  decimal literal is an optional sign, then \<^verbatim>\<open>Infinity\<close> or digits with an optional
  fraction and an optional exponent; everything else is \<open>NaN\<close>. The value of a literal is
  rounded to binary64.

  The white space of \<^verbatim>\<open>StrWhiteSpaceChar\<close>, each character as its UTF-8 bytes: tab, line
  feed, vertical tab, form feed, carriage return, space, U+00A0, U+1680, U+2000 to
  U+200A, U+2028, U+2029, U+202F, U+205F, U+3000 and U+FEFF.
\<close>

definition white_space_texts :: "string list" where
  "white_space_texts =
     [[CHR 0x09], [CHR 0x0A], [CHR 0x0B], [CHR 0x0C], [CHR 0x0D], [CHR 0x20],
      [CHR 0xC2, CHR 0xA0], [CHR 0xE1, CHR 0x9A, CHR 0x80],
      [CHR 0xE2, CHR 0x80, CHR 0x80], [CHR 0xE2, CHR 0x80, CHR 0x81],
      [CHR 0xE2, CHR 0x80, CHR 0x82], [CHR 0xE2, CHR 0x80, CHR 0x83],
      [CHR 0xE2, CHR 0x80, CHR 0x84], [CHR 0xE2, CHR 0x80, CHR 0x85],
      [CHR 0xE2, CHR 0x80, CHR 0x86], [CHR 0xE2, CHR 0x80, CHR 0x87],
      [CHR 0xE2, CHR 0x80, CHR 0x88], [CHR 0xE2, CHR 0x80, CHR 0x89],
      [CHR 0xE2, CHR 0x80, CHR 0x8A], [CHR 0xE2, CHR 0x80, CHR 0xA8],
      [CHR 0xE2, CHR 0x80, CHR 0xA9], [CHR 0xE2, CHR 0x80, CHR 0xAF],
      [CHR 0xE2, CHR 0x81, CHR 0x9F], [CHR 0xE3, CHR 0x80, CHR 0x80],
      [CHR 0xEF, CHR 0xBB, CHR 0xBF]]"

text \<open>
  The number of bytes of the white space character that a text starts with, among the
  given ones; zero when it starts with none.
\<close>

definition leading_length :: "string list \<Rightarrow> string \<Rightarrow> nat" where
  "leading_length texts s =
     (case find (\<lambda>t. take (length t) s = t) texts of None \<Rightarrow> 0 | Some t \<Rightarrow> length t)"

text \<open>
  Dropping the white space that a text starts with: \<open>skip\<close> counts the bytes still to
  drop of the character being dropped.
\<close>

fun drop_leading :: "string list \<Rightarrow> nat \<Rightarrow> string \<Rightarrow> string" where
  "drop_leading texts skip [] = []"
| "drop_leading texts (Suc skip) (c # cs) = drop_leading texts skip cs"
| "drop_leading texts 0 (c # cs) =
     (if leading_length texts (c # cs) = 0 then c # cs
      else drop_leading texts (leading_length texts (c # cs) - 1) cs)"

definition trim :: "string \<Rightarrow> string" where
  "trim s =
     rev (drop_leading (map rev white_space_texts) 0
            (rev (drop_leading white_space_texts 0 s)))"

definition radix_digit :: "char \<Rightarrow> nat option" where
  "radix_digit c =
     map_of (zip (''0123456789'' @ ''abcdef'' @ ''ABCDEF'')
                 ([0, 1, 2, 3, 4, 5, 6, 7, 8, 9] @ [10, 11, 12, 13, 14, 15] @
                  [10, 11, 12, 13, 14, 15])) c"

fun radix_value :: "nat \<Rightarrow> nat \<Rightarrow> string \<Rightarrow> nat option" where
  "radix_value b acc [] = Some acc"
| "radix_value b acc (c # cs) =
     (case radix_digit c of
        None \<Rightarrow> None
      | Some d \<Rightarrow> if d < b then radix_value b (b * acc + d) cs else None)"

definition NonDecimalIntegerLiteral :: "nat \<Rightarrow> string \<Rightarrow> number" where
  "NonDecimalIntegerLiteral b ds =
     (if ds = [] then NaN
      else case radix_value b 0 ds of None \<Rightarrow> NaN | Some n \<Rightarrow> round64 (of_nat n))"

text \<open>The exponent part: \<open>e\<close> or \<open>E\<close>, an optional sign, one digit or more.\<close>

definition SignedInteger :: "string \<Rightarrow> int option" where
  "SignedInteger s =
     (let ds = (case s of [] \<Rightarrow> [] | c # r \<Rightarrow> if c = CHR ''+'' \<or> c = CHR ''-'' then r else s)
      in if ds = [] \<or> \<not> list_all is_digit ds then None
         else if take 1 s = ''-'' then Some (- int (nat_of_digits ds))
         else Some (int (nat_of_digits ds)))"

definition ExponentPart :: "string \<Rightarrow> int option" where
  "ExponentPart s =
     (case s of
        [] \<Rightarrow> Some 0
      | c # r \<Rightarrow> if c = CHR ''e'' \<or> c = CHR ''E'' then SignedInteger r else None)"

definition pow10 :: "int \<Rightarrow> real" where
  "pow10 e = (if 0 \<le> e then 10 ^ nat e else 1 / 10 ^ nat (- e))"

text \<open>
  The value of an unsigned decimal literal other than \<^verbatim>\<open>Infinity\<close>: digits, then a point
  and digits, then an exponent; the integer part or the fraction may be empty, not both.
\<close>

definition StrUnsignedDecimalLiteral :: "string \<Rightarrow> real option" where
  "StrUnsignedDecimalLiteral s =
     (let ip = takeWhile is_digit s;
          r1 = dropWhile is_digit s;
          dot = (take 1 r1 = ''.'');
          fp = (if dot then takeWhile is_digit (drop 1 r1) else []);
          r2 = (if dot then dropWhile is_digit (drop 1 r1) else r1)
      in if ip = [] \<and> fp = [] then None
         else case ExponentPart r2 of
                None \<Rightarrow> None
              | Some e \<Rightarrow>
                  Some ((of_nat (nat_of_digits ip) +
                         of_nat (nat_of_digits fp) / 10 ^ length fp) * pow10 e))"

definition StrUnsignedLiteral :: "string \<Rightarrow> number" where
  "StrUnsignedLiteral s =
     (if s = ''Infinity'' then PosInf
      else case StrUnsignedDecimalLiteral s of None \<Rightarrow> NaN | Some q \<Rightarrow> round64 q)"

definition StringToNumber :: "string \<Rightarrow> number" where
  "StringToNumber s =
     (let t = trim s in
      if t = [] then Finite 0
      else if take 2 t = ''0x'' \<or> take 2 t = ''0X'' then NonDecimalIntegerLiteral 16 (drop 2 t)
      else if take 2 t = ''0o'' \<or> take 2 t = ''0O'' then NonDecimalIntegerLiteral 8 (drop 2 t)
      else if take 2 t = ''0b'' \<or> take 2 t = ''0B'' then NonDecimalIntegerLiteral 2 (drop 2 t)
      else if take 1 t = ''+'' then StrUnsignedLiteral (drop 1 t)
      else if take 1 t = ''-'' then neg (StrUnsignedLiteral (drop 1 t))
      else StrUnsignedLiteral t)"

section \<open>JSON values, property reads and \<^verbatim>\<open>Number(value)\<close>\<close>

text \<open>
  What \<^verbatim>\<open>JSON.parse\<close> and \<^verbatim>\<open>r.json()\<close> return, and what \<^verbatim>\<open>res.json\<close> is given. An object
  is the association list of its own properties, the binding that counts first.
  \<open>JUndefined\<close> is the value of a property that is not there.
\<close>

datatype jsval =
    JUndefined
  | JNull
  | JBool bool
  | JNum number
  | JStr string
  | JArr "jsval list"
  | JObj "(string \<times> jsval) list"

text \<open>
  An exception is modelled by the text \<^verbatim>\<open>String(e)\<close> that a handler's \<^verbatim>\<open>catch\<close> puts in its
  answer. The text of a \<^verbatim>\<open>TypeError\<close> raised by the runtime is not modelled further.
\<close>

type_synonym exn = string

definition TypeError :: exn where
  "TypeError = ''TypeError''"

definition bind :: "exn + 'a \<Rightarrow> ('a \<Rightarrow> exn + 'b) \<Rightarrow> exn + 'b" where
  "bind m f = (case m of Inl e \<Rightarrow> Inl e | Inr x \<Rightarrow> f x)"

text \<open>Truthiness, and \<^verbatim>\<open>a || b\<close>.\<close>

fun truthy :: "jsval \<Rightarrow> bool" where
  "truthy JUndefined = False"
| "truthy JNull = False"
| "truthy (JBool b) = b"
| "truthy (JNum n) = (n \<noteq> NaN \<and> n \<noteq> Finite 0)"
| "truthy (JStr s) = (s \<noteq> [])"
| "truthy (JArr xs) = True"
| "truthy (JObj kvs) = True"

definition or_else :: "jsval \<Rightarrow> jsval \<Rightarrow> jsval" where
  "or_else a b = (if truthy a then a else b)"

text \<open>
  \<^verbatim>\<open>v.name\<close> for the names the sources read (\<^verbatim>\<open>price\<close>, \<^verbatim>\<open>balances\<close>, \<^verbatim>\<open>asset\<close>,
  \<^verbatim>\<open>free\<close>, \<^verbatim>\<open>locked\<close>, \<^verbatim>\<open>quoteQty\<close>): a \<^verbatim>\<open>TypeError\<close> on \<^verbatim>\<open>undefined\<close> and \<^verbatim>\<open>null\<close>, the
  own property of an object, and \<^verbatim>\<open>undefined\<close> on every other value, none of whose
  prototypes has one of these names.
\<close>

fun get_prop :: "jsval \<Rightarrow> string \<Rightarrow> exn + jsval" where
  "get_prop JUndefined k = Inl TypeError"
| "get_prop JNull k = Inl TypeError"
| "get_prop (JObj kvs) k = Inr (case map_of kvs k of None \<Rightarrow> JUndefined | Some v \<Rightarrow> v)"
| "get_prop v k = Inr JUndefined"

text \<open>
  The conversion of an object to a string raises a \<^verbatim>\<open>TypeError\<close> when the object has an
  own property \<^verbatim>\<open>toString\<close> (a JSON value is never callable, and \<^verbatim>\<open>valueOf\<close> gives the
  object back); an array converts each of its elements.
\<close>

fun toString_throws :: "jsval \<Rightarrow> bool" where
  "toString_throws (JObj kvs) = (map_of kvs ''toString'' \<noteq> None)"
| "toString_throws (JArr xs) = list_ex toString_throws xs"
| "toString_throws v = False"

text \<open>
  \<^verbatim>\<open>Number(xs.join(","))\<close> for the elements \<open>xs\<close> of an array none of which raises: the
  empty text for no element and for \<^verbatim>\<open>null\<close>, the element's own text for a single
  element (a number reads back as itself), and a text with a comma, which is no number,
  for two elements or more.
\<close>

function join_number :: "jsval list \<Rightarrow> number" where
  "join_number [] = Finite 0"
| "join_number [JUndefined] = Finite 0"
| "join_number [JNull] = Finite 0"
| "join_number [JBool b] = NaN"
| "join_number [JNum n] = n"
| "join_number [JStr s] = StringToNumber s"
| "join_number [JArr ys] = join_number ys"
| "join_number [JObj kvs] = NaN"
| "join_number (x # y # zs) = NaN"
  by pat_completeness auto
termination
  by (relation "measure (size_list size)") auto

text \<open>\<^verbatim>\<open>Number(v)\<close>.\<close>

fun ToNumber :: "jsval \<Rightarrow> exn + number" where
  "ToNumber JUndefined = Inr NaN"
| "ToNumber JNull = Inr (Finite 0)"
| "ToNumber (JBool b) = Inr (Finite (if b then 1 else 0))"
| "ToNumber (JNum n) = Inr n"
| "ToNumber (JStr s) = Inr (StringToNumber s)"
| "ToNumber (JArr xs) = (if toString_throws (JArr xs) then Inl TypeError else Inr (join_number xs))"
| "ToNumber (JObj kvs) = (if toString_throws (JObj kvs) then Inl TypeError else Inr NaN)"

section \<open>Configuration and requests\<close>

text \<open>
  \<^verbatim>\<open>process.env\<close>: a variable is a string or is not set. The three constants of both
  sources are \<^verbatim>\<open>process.env.X || ""\<close>.
\<close>

record process_env =
  env_PROXY_API_KEY :: "string option"
  env_BINANCE_API_KEY :: "string option"
  env_BINANCE_API_SECRET :: "string option"
  env_TIMEZONE_OFFSET_HOURS :: "string option"

definition or_empty :: "string option \<Rightarrow> string" where
  "or_empty v = (case v of None \<Rightarrow> [] | Some s \<Rightarrow> s)"

definition PROXY_API_KEY :: "process_env \<Rightarrow> string" where
  "PROXY_API_KEY e = or_empty (env_PROXY_API_KEY e)"

definition BINANCE_API_KEY :: "process_env \<Rightarrow> string" where
  "BINANCE_API_KEY e = or_empty (env_BINANCE_API_KEY e)"

definition BINANCE_API_SECRET :: "process_env \<Rightarrow> string" where
  "BINANCE_API_SECRET e = or_empty (env_BINANCE_API_SECRET e)"

text \<open>
  A value of \<^verbatim>\<open>req.query\<close>: a string, or the array or object that the query parser builds
  from a repeated or bracketed key (such an object has no property that would shadow one
  of \<^verbatim>\<open>Object.prototype\<close>). A GET request, as far as the handlers read it.
\<close>

datatype qval = QStr string | QArr "qval list" | QObj "(string \<times> qval) list"

record request =
  header_X_Proxy_Key :: "string option"
  query_key :: "qval option"
  query_symbol :: "qval option"
  query_date :: "qval option"

text \<open>The text of a query value in a template literal, and the value in a JSON answer.\<close>

fun intercalate :: "string \<Rightarrow> string list \<Rightarrow> string" where
  "intercalate sep [] = []"
| "intercalate sep [s] = s"
| "intercalate sep (s # t # ss) = s @ sep @ intercalate sep (t # ss)"

fun ToString_q :: "qval \<Rightarrow> string" where
  "ToString_q (QStr s) = s"
| "ToString_q (QArr xs) = intercalate '','' (map ToString_q xs)"
| "ToString_q (QObj kvs) = ''[object Object]''"

fun js_of_qval :: "qval \<Rightarrow> jsval" where
  "js_of_qval (QStr s) = JStr s"
| "js_of_qval (QArr xs) = JArr (map js_of_qval xs)"
| "js_of_qval (QObj kvs) = JObj (map (\<lambda>(k, v). (k, js_of_qval v)) kvs)"

section \<open>The authenticator and the signer\<close>

text \<open>
  What a handler produces: the upstream requests it sent, in order, and its one answer
  \<^verbatim>\<open>res.status(status).json(body)\<close>.
\<close>

record call =
  url :: string
  X_MBX_APIKEY :: "string option"

record outcome =
  calls :: "call list"
  status :: nat
  body :: jsval

definition respond :: "call list \<Rightarrow> nat \<Rightarrow> jsval \<Rightarrow> outcome" where
  "respond cs st b = \<lparr>calls = cs, status = st, body = b\<rparr>"

text \<open>
  \<^verbatim>\<open>const key = req.header("X-Proxy-Key") || req.query.key\<close>: an empty header is falsy
  too.
\<close>

definition supplied_key :: "request \<Rightarrow> qval option" where
  "supplied_key req =
     (case header_X_Proxy_Key req of
        None \<Rightarrow> query_key req
      | Some h \<Rightarrow> if h \<noteq> [] then Some (QStr h) else query_key req)"

text \<open>
  \<^verbatim>\<open>checkAuth(req, res)\<close>: \<open>Some\<close> answer when it answered 401 and returned \<^verbatim>\<open>false\<close>,
  \<open>None\<close> when it returned \<^verbatim>\<open>true\<close> and left the response alone.
\<close>

definition unauthorized :: outcome where
  "unauthorized = respond [] 401 (JObj [(''error'', JStr ''Unauthorized'')])"

definition checkAuth :: "process_env \<Rightarrow> request \<Rightarrow> outcome option" where
  "checkAuth e req =
     (let key = supplied_key req in
      if PROXY_API_KEY e = [] \<or> key \<noteq> Some (QStr (PROXY_API_KEY e))
      then Some unauthorized
      else None)"

text \<open>\<^verbatim>\<open>hmac(message, secret)\<close>.\<close>

definition hmac :: "runtime \<Rightarrow> string \<Rightarrow> string \<Rightarrow> string" where
  "hmac rt message secret = hmac_sha256_hex rt secret message"

section \<open>\<^verbatim>\<open>new Date(text).getTime()\<close>\<close>

text \<open>
  The calendar arithmetic of ECMAScript: the day number of the first day of a year, of a
  date, and the milliseconds since the epoch of a date and time in UTC.
\<close>

definition is_leap :: "int \<Rightarrow> bool" where
  "is_leap y = ((y mod 4 = 0 \<and> y mod 100 \<noteq> 0) \<or> y mod 400 = 0)"

definition DayFromYear :: "int \<Rightarrow> int" where
  "DayFromYear y =
     365 * (y - 1970) + (y - 1969) div 4 - (y - 1901) div 100 + (y - 1601) div 400"

definition days_in_month :: "int \<Rightarrow> nat \<Rightarrow> nat" where
  "days_in_month y m =
     (if m = 2 then (if is_leap y then 29 else 28)
      else if m = 4 \<or> m = 6 \<or> m = 9 \<or> m = 11 then 30 else 31)"

definition days_before_month :: "int \<Rightarrow> nat \<Rightarrow> int" where
  "days_before_month y m =
     int ([0, 31, 59, 90, 120, 151, 181, 212, 243, 273, 304, 334] ! (m - 1)) +
     (if is_leap y \<and> 2 < m then 1 else 0)"

definition MakeDay :: "int \<Rightarrow> nat \<Rightarrow> nat \<Rightarrow> int" where
  "MakeDay y m d = DayFromYear y + days_before_month y m + int d - 1"

definition utc_ms :: "int \<Rightarrow> nat \<Rightarrow> nat \<Rightarrow> nat \<Rightarrow> nat \<Rightarrow> nat \<Rightarrow> int" where
  "utc_ms y m d h mi s =
     MakeDay y m d * 86400000 + int h * 3600000 + int mi * 60000 + int s * 1000"

definition TimeClip :: "int \<Rightarrow> timevalue" where
  "TimeClip t = (if \<bar>t\<bar> \<le> 8640000000000000 then Some t else None)"

text \<open>
  The fields of a text of the shape \<^verbatim>\<open>YYYY-MM-DDTHH:mm:ssZ\<close> or
  \<^verbatim>\<open>YYYY-MM-DDTHH:mm:ss\<plusminus>HH:mm\<close>, where the date may stop after the year or the month and the
  year may be a sign and six digits. Both resolvers append \<^verbatim>\<open>T\<close>, a time with seconds and
  a zone to their argument, so these are the texts of the format that they can build.
\<close>

record iso_fields =
  minus_zero_year :: bool
  year :: int
  month :: nat
  day :: nat
  hour :: nat
  minute :: nat
  second :: nat
  zone_sign :: int
  zone_hour :: nat
  zone_minute :: nat

definition two_digits :: "char \<Rightarrow> char \<Rightarrow> nat option" where
  "two_digits a b =
     (if is_digit a \<and> is_digit b then Some (10 * digit_val a + digit_val b) else None)"

text \<open>The year and what follows it: four digits, or a sign and six digits.\<close>

definition parse_year :: "string \<Rightarrow> (bool \<times> int \<times> string) option" where
  "parse_year s =
     (if 4 \<le> length s \<and> list_all is_digit (take 4 s)
      then Some (False, int (nat_of_digits (take 4 s)), drop 4 s)
      else if 7 \<le> length s \<and> (take 1 s = ''+'' \<or> take 1 s = ''-'') \<and>
              list_all is_digit (take 6 (drop 1 s))
      then let n = int (nat_of_digits (take 6 (drop 1 s)))
           in Some (take 1 s = ''-'' \<and> n = 0, if take 1 s = ''-'' then - n else n, drop 7 s)
      else None)"

text \<open>After the year: nothing, \<^verbatim>\<open>-MM\<close> or \<^verbatim>\<open>-MM-DD\<close>; a month or day left out is 1.\<close>

fun parse_month_day :: "string \<Rightarrow> (nat \<times> nat) option" where
  "parse_month_day [] = Some (1, 1)"
| "parse_month_day [c, m1, m2] =
     (if c = CHR ''-'' then map_option (\<lambda>m. (m, 1)) (two_digits m1 m2) else None)"
| "parse_month_day [c, m1, m2, c', d1, d2] =
     (if c = CHR ''-'' \<and> c' = CHR ''-''
      then (case (two_digits m1 m2, two_digits d1 d2) of
              (Some m, Some d) \<Rightarrow> Some (m, d)
            | _ \<Rightarrow> None)
      else None)"
| "parse_month_day s = None"

text \<open>The time \<^verbatim>\<open>HH:mm:ss\<close>.\<close>

fun parse_time :: "string \<Rightarrow> (nat \<times> nat \<times> nat) option" where
  "parse_time [h1, h2, c, m1, m2, c', s1, s2] =
     (if c = CHR '':'' \<and> c' = CHR '':''
      then (case (two_digits h1 h2, two_digits m1 m2, two_digits s1 s2) of
              (Some h, Some m, Some s) \<Rightarrow> Some (h, m, s)
            | _ \<Rightarrow> None)
      else None)"
| "parse_time s = None"

text \<open>The zone: \<^verbatim>\<open>Z\<close>, or a sign and \<^verbatim>\<open>HH:mm\<close>.\<close>

fun parse_zone :: "string \<Rightarrow> (int \<times> nat \<times> nat) option" where
  "parse_zone [z] = (if z = CHR ''Z'' then Some (1, 0, 0) else None)"
| "parse_zone [sg, h1, h2, c, m1, m2] =
     (if (sg = CHR ''+'' \<or> sg = CHR ''-'') \<and> c = CHR '':''
      then (case (two_digits h1 h2, two_digits m1 m2) of
              (Some h, Some m) \<Rightarrow> Some (if sg = CHR ''-'' then - 1 else 1, h, m)
            | _ \<Rightarrow> None)
      else None)"
| "parse_zone s = None"

definition iso_parse :: "string \<Rightarrow> iso_fields option" where
  "iso_parse s =
     (let d = takeWhile (\<lambda>c. c \<noteq> CHR ''T'') s;
          t = drop 1 (dropWhile (\<lambda>c. c \<noteq> CHR ''T'') s)
      in if length d = length s then None
         else case parse_year d of
           None \<Rightarrow> None
         | Some (mz, y, rest) \<Rightarrow>
            (case (parse_month_day rest, parse_time (take 8 t), parse_zone (drop 8 t)) of
               (Some (mo, dy), Some (h, mi, sec), Some (sg, zh, zm)) \<Rightarrow>
                 Some \<lparr>minus_zero_year = mz, year = y, month = mo, day = dy, hour = h,
                       minute = mi, second = sec, zone_sign = sg, zone_hour = zh,
                       zone_minute = zm\<rparr>
             | _ \<Rightarrow> None))"

text \<open>
  A field out of its bounds makes the time value \<open>NaN\<close>: the year \<^verbatim>\<open>-000000\<close>, a month
  outside 1 to 12, a day outside 1 to 31, a time past \<^verbatim>\<open>24:00:00\<close>, a zone past
  \<^verbatim>\<open>23:59\<close>.
\<close>

definition in_bounds :: "iso_fields \<Rightarrow> bool" where
  "in_bounds f =
     (\<not> minus_zero_year f \<and> 1 \<le> month f \<and> month f \<le> 12 \<and> 1 \<le> day f \<and> day f \<le> 31 \<and>
      (hour f < 24 \<and> minute f < 60 \<and> second f < 60 \<or>
       hour f = 24 \<and> minute f = 0 \<and> second f = 0) \<and>
      zone_hour f < 24 \<and> zone_minute f < 60)"

definition iso_time_value :: "iso_fields \<Rightarrow> timevalue" where
  "iso_time_value f =
     TimeClip (utc_ms (year f) (month f) (day f) (hour f) (minute f) (second f) -
               zone_sign f * (int (zone_hour f) * 60 + int (zone_minute f)) * 60000)"

text \<open>
  \<^verbatim>\<open>new Date(s).getTime()\<close>. A text of the shape above with every field in bounds and a
  day that its month has is read by the format. A field out of bounds gives \<open>NaN\<close>. Every
  other text is left to the runtime: a text of another shape, and a day up to 31 that the
  month does not have (some engines roll it over into the next month, others give
  \<open>NaN\<close>).
\<close>

definition Date_getTime :: "runtime \<Rightarrow> string \<Rightarrow> timevalue" where
  "Date_getTime rt s =
     (case iso_parse s of
        None \<Rightarrow> legacy_date_parse rt s
      | Some f \<Rightarrow>
          if \<not> in_bounds f then None
          else if days_in_month (year f) (month f) < day f then legacy_date_parse rt s
          else iso_time_value f)"

text \<open>The text of a time value in a template literal.\<close>

definition String_time :: "timevalue \<Rightarrow> string" where
  "String_time t = (case t of None \<Rightarrow> ''NaN'' | Some i \<Rightarrow> String_int i)"

section \<open>The day-range resolvers\<close>

record day_range =
  start :: timevalue
  end' :: timevalue

text \<open>\<^verbatim>\<open>getDayRangeUTC(dateStr)\<close> of \<^verbatim>\<open>src/index.js\<close>, lines 41 to 45.\<close>

definition getDayRangeUTC :: "runtime \<Rightarrow> qval \<Rightarrow> day_range" where
  "getDayRangeUTC rt dateStr =
     (let start = Date_getTime rt (ToString_q dateStr @ ''T00:00:00Z'');
          end = Date_getTime rt (ToString_q dateStr @ ''T23:59:59Z'')
      in \<lparr>start = start, end' = end\<rparr>)"

text \<open>
  \<^verbatim>\<open>getDayRange(dateStr)\<close> of \<^verbatim>\<open>src/unnamed/part_000\<close>, lines 43 to 61. Its first line
  is \<^verbatim>\<open>Number(process.env.TIMEZONE_OFFSET_HOURS ?? 8)\<close>.
\<close>

definition tzOffsetHours :: "process_env \<Rightarrow> number" where
  "tzOffsetHours e =
     (case env_TIMEZONE_OFFSET_HOURS e of None \<Rightarrow> Finite 8 | Some s \<Rightarrow> StringToNumber s)"

definition offsetStr :: "runtime \<Rightarrow> number \<Rightarrow> string" where
  "offsetStr rt tz =
     (let sign = (if ge0 tz then ''+'' else ''-'');
          absOffset = Math_abs tz;
          hh = padStart2 (String_number rt (Math_floor absOffset));
          mm = padStart2 (String_number rt
                 (Math_round (mul (sub absOffset (Math_floor absOffset)) (Finite 60))))
      in sign @ hh @ '':'' @ mm)"

definition getDayRange :: "runtime \<Rightarrow> process_env \<Rightarrow> qval \<Rightarrow> day_range" where
  "getDayRange rt e dateStr =
     (let startIso = ToString_q dateStr @ ''T00:00:00'' @ offsetStr rt (tzOffsetHours e);
          endIso = ToString_q dateStr @ ''T23:59:59'' @ offsetStr rt (tzOffsetHours e);
          start = Date_getTime rt startIso;
          end = Date_getTime rt endIso
      in \<lparr>start = start, end' = end\<rparr>)"

section \<open>The outside world of one request\<close>

text \<open>
  What the \<open>k\<close>-th \<^verbatim>\<open>fetch\<close> of a request brings: the promise is rejected (no connection),
  or there is a response with its status and its body, which \<^verbatim>\<open>r.json()\<close> or
  \<^verbatim>\<open>JSON.parse(await r.text())\<close> turns into a value or an exception. \<open>Date_now w k\<close> is
  what the \<open>k\<close>-th \<^verbatim>\<open>Date.now()\<close> of the request returns.
\<close>

datatype reply = Rejected exn | Reply nat "exn + jsval"

record world =
  Date_now :: "nat \<Rightarrow> int"
  fetch :: "nat \<Rightarrow> reply"

text \<open>\<^verbatim>\<open>r.ok\<close>.\<close>

definition ok :: "nat \<Rightarrow> bool" where
  "ok st = (200 \<le> st \<and> st \<le> 299)"

text \<open>The two answers that every handler shares.\<close>

definition proxy_exception :: "call list \<Rightarrow> exn \<Rightarrow> outcome" where
  "proxy_exception cs ex =
     respond cs 500 (JObj [(''error'', JStr ''proxy_exception''), (''message'', JStr ex)])"

definition binance_error :: "call list \<Rightarrow> nat \<Rightarrow> jsval \<Rightarrow> outcome" where
  "binance_error cs st data =
     respond cs st (JObj [(''error'', JStr ''binance_error''), (''data'', data)])"

definition missing_binance_keys :: outcome where
  "missing_binance_keys = respond [] 400 (JObj [(''error'', JStr ''missing_binance_keys'')])"

definition missing_date :: outcome where
  "missing_date = respond [] 400 (JObj [(''error'', JStr ''missing_date'')])"

section \<open>The price handlers\<close>

text \<open>
  \<^verbatim>\<open>(req.query.symbol || "BNBUSDT").toUpperCase()\<close>: an array or an object has no such
  method.
\<close>

definition symbol_of :: "runtime \<Rightarrow> request \<Rightarrow> exn + string" where
  "symbol_of rt req =
     (case query_symbol req of
        None \<Rightarrow> Inr (toUpperCase rt ''BNBUSDT'')
      | Some q \<Rightarrow>
          (case q of
             QStr s \<Rightarrow> Inr (toUpperCase rt (if s \<noteq> [] then s else ''BNBUSDT''))
           | QArr xs \<Rightarrow> Inl TypeError
           | QObj kvs \<Rightarrow> Inl TypeError))"

text \<open>
  The \<^verbatim>\<open>try\<close> block of \<^verbatim>\<open>/price\<close> and \<^verbatim>\<open>/futures-price\<close>, which differ in the address
  and in the \<^verbatim>\<open>type\<close> of the answer only.
\<close>

definition ticker_price ::
  "runtime \<Rightarrow> string \<Rightarrow> string \<Rightarrow> world \<Rightarrow> request \<Rightarrow> outcome" where
  "ticker_price rt type address w req =
     (case symbol_of rt req of
        Inl ex \<Rightarrow> proxy_exception [] ex
      | Inr symbol \<Rightarrow>
          (let c = \<lparr>url = address @ encodeURIComponent symbol, X_MBX_APIKEY = None\<rparr> in
           (case fetch w 0 of
              Rejected ex \<Rightarrow> proxy_exception [c] ex
            | Reply st txt \<Rightarrow>
                (case txt of
                   Inl ex \<Rightarrow> proxy_exception [c] ex
                 | Inr data \<Rightarrow>
                     if \<not> ok st then binance_error [c] st data
                     else (case bind (get_prop data ''price'') ToNumber of
                             Inl ex \<Rightarrow> proxy_exception [c] ex
                           | Inr p \<Rightarrow>
                               respond [c] 200
                                 (JObj [(''type'', JStr type), (''symbol'', JStr symbol),
                                        (''price'', JNum p)]))))))"

definition price :: "runtime \<Rightarrow> process_env \<Rightarrow> world \<Rightarrow> request \<Rightarrow> outcome" where
  "price rt e w req =
     (case checkAuth e req of
        Some r \<Rightarrow> r
      | None \<Rightarrow>
          ticker_price rt ''spot'' ''https://api.binance.com/api/v3/ticker/price?symbol='' w
            req)"

definition futures_price :: "runtime \<Rightarrow> process_env \<Rightarrow> world \<Rightarrow> request \<Rightarrow> outcome" where
  "futures_price rt e w req =
     (case checkAuth e req of
        Some r \<Rightarrow> r
      | None \<Rightarrow>
          ticker_price rt ''futures''
            ''https://fapi.binance.com/fapi/v1/ticker/price?symbol='' w req)"

section \<open>The balance handlers\<close>

text \<open>\<^verbatim>\<open>!BINANCE_API_KEY || !BINANCE_API_SECRET\<close>.\<close>

definition keys_missing :: "process_env \<Rightarrow> bool" where
  "keys_missing e = (BINANCE_API_KEY e = [] \<or> BINANCE_API_SECRET e = [])"

text \<open>
  The signed query of both balance handlers:
  \<^verbatim>\<open>recvWindow=5000&timestamp=${Date.now()}\<close>, and the request that carries it with its
  signature and the key header.
\<close>

definition balance_qs :: "world \<Rightarrow> string" where
  "balance_qs w = ''recvWindow=5000&timestamp='' @ String_int (Date_now w 0)"

definition signed_call :: "runtime \<Rightarrow> process_env \<Rightarrow> string \<Rightarrow> string \<Rightarrow> call" where
  "signed_call rt e address qs =
     \<lparr>url = address @ qs @ ''&signature='' @ hmac rt qs (BINANCE_API_SECRET e),
      X_MBX_APIKEY = Some (BINANCE_API_KEY e)\<rparr>"

text \<open>\<^verbatim>\<open>xs.find(b => b.asset === "BNB")\<close>.\<close>

fun find_BNB :: "jsval list \<Rightarrow> exn + jsval" where
  "find_BNB [] = Inr JUndefined"
| "find_BNB (b # bs) =
     (case get_prop b ''asset'' of
        Inl ex \<Rightarrow> Inl ex
      | Inr a \<Rightarrow> if a = JStr ''BNB'' then Inr b else find_BNB bs)"

text \<open>
  \<^verbatim>\<open>(data.balances || []).find(...)\<close>: a truthy value that is no array has no callable
  \<^verbatim>\<open>find\<close>.
\<close>

definition find_in_balances :: "jsval \<Rightarrow> exn + jsval" where
  "find_in_balances data =
     bind (get_prop data ''balances'')
       (\<lambda>bl. (case or_else bl (JArr []) of JArr xs \<Rightarrow> find_BNB xs | _ \<Rightarrow> Inl TypeError))"

text \<open>\<^verbatim>\<open>Number(bnb.free || 0)\<close> and \<^verbatim>\<open>Number(bnb.locked || 0)\<close>.\<close>

definition number_or_0 :: "jsval \<Rightarrow> string \<Rightarrow> exn + number" where
  "number_or_0 v k = bind (get_prop v k) (\<lambda>x. ToNumber (or_else x (JNum (Finite 0))))"

text \<open>Lines 105 to 109 of \<^verbatim>\<open>src/index.js\<close>: the body of the answer of \<^verbatim>\<open>/balance\<close>.\<close>

definition BNB_body :: "jsval \<Rightarrow> exn + jsval" where
  "BNB_body data =
     bind (find_in_balances data)
       (\<lambda>found.
          let bnb = or_else found (JObj [(''free'', JStr ''0''), (''locked'', JStr ''0'')]) in
          bind (number_or_0 bnb ''free'')
            (\<lambda>free. bind (number_or_0 bnb ''locked'')
               (\<lambda>locked.
                  Inr (JObj [(''asset'', JStr ''BNB''), (''free'', JNum free),
                             (''locked'', JNum locked), (''total'', JNum (add free locked))]))))"

definition balance :: "runtime \<Rightarrow> process_env \<Rightarrow> world \<Rightarrow> request \<Rightarrow> outcome" where
  "balance rt e w req =
     (case checkAuth e req of
        Some r \<Rightarrow> r
      | None \<Rightarrow>
          if keys_missing e then missing_binance_keys
          else
            (let c = signed_call rt e ''https://api.binance.com/api/v3/account?'' (balance_qs w)
             in (case fetch w 0 of
                   Rejected ex \<Rightarrow> proxy_exception [c] ex
                 | Reply st js \<Rightarrow>
                     (case js of
                        Inl ex \<Rightarrow> proxy_exception [c] ex
                      | Inr data \<Rightarrow>
                          if \<not> ok st then binance_error [c] st data
                          else (case BNB_body data of
                                  Inl ex \<Rightarrow> proxy_exception [c] ex
                                | Inr b \<Rightarrow> respond [c] 200 b)))))"

definition futures_balance :: "runtime \<Rightarrow> process_env \<Rightarrow> world \<Rightarrow> request \<Rightarrow> outcome" where
  "futures_balance rt e w req =
     (case checkAuth e req of
        Some r \<Rightarrow> r
      | None \<Rightarrow>
          if keys_missing e then missing_binance_keys
          else
            (let c = signed_call rt e ''https://fapi.binance.com/fapi/v2/balance?'' (balance_qs w)
             in (case fetch w 0 of
                   Rejected ex \<Rightarrow> proxy_exception [c] ex
                 | Reply st js \<Rightarrow>
                     (case js of
                        Inl ex \<Rightarrow> proxy_exception [c] ex
                      | Inr data \<Rightarrow>
                          if \<not> ok st then binance_error [c] st data
                          else respond [c] 200 (JObj [(''balances'', data)])))))"

section \<open>The hedge-volume handler\<close>

text \<open>
  The loop over one trade list:
  \<^verbatim>\<open>let v = 0; if (Array.isArray(trades)) for (const t of trades) v += Number(t.quoteQty || 0)\<close>.
\<close>

fun sum_loop :: "number \<Rightarrow> jsval list \<Rightarrow> exn + number" where
  "sum_loop v [] = Inr v"
| "sum_loop v (t # ts) =
     (case number_or_0 t ''quoteQty'' of
        Inl ex \<Rightarrow> Inl ex
      | Inr n \<Rightarrow> sum_loop (add v n) ts)"

fun Array_isArray :: "jsval \<Rightarrow> bool" where
  "Array_isArray (JArr xs) = True"
| "Array_isArray v = False"

fun elements :: "jsval \<Rightarrow> jsval list" where
  "elements (JArr xs) = xs"
| "elements v = []"

definition sumQuoteQty :: "jsval \<Rightarrow> exn + number" where
  "sumQuoteQty trades =
     (if Array_isArray trades then sum_loop (Finite 0) (elements trades) else Inr (Finite 0))"

text \<open>The resolver that each source calls.\<close>

datatype variant = Index_js | Part_000

definition dayRange :: "variant \<Rightarrow> runtime \<Rightarrow> process_env \<Rightarrow> qval \<Rightarrow> day_range" where
  "dayRange v rt e date =
     (case v of Index_js \<Rightarrow> getDayRangeUTC rt date | Part_000 \<Rightarrow> getDayRange rt e date)"

text \<open>
  \<^verbatim>\<open>startTime=${start}&endTime=${end}&timestamp=${Date.now()}\<close>, built once for the spot
  trades (the first reading of the clock) and once for the futures trades (the second).
\<close>

definition trades_qs :: "day_range \<Rightarrow> int \<Rightarrow> string" where
  "trades_qs r now =
     ''startTime='' @ String_time (start r) @ ''&endTime='' @ String_time (end' r) @
     ''&timestamp='' @ String_int now"

definition hedge_body :: "qval \<Rightarrow> number \<Rightarrow> number \<Rightarrow> jsval" where
  "hedge_body date spotVolume futuresVolume =
     JObj [(''date'', js_of_qval date),
           (''spotHedgeVolumeUSDT'', JNum (Number_toFixed2 spotVolume)),
           (''futuresHedgeVolumeUSDT'', JNum (Number_toFixed2 futuresVolume))]"

text \<open>What follows the spot loop: the futures request, its loop and the answer.\<close>

definition hedge_futures ::
  "runtime \<Rightarrow> process_env \<Rightarrow> world \<Rightarrow> qval \<Rightarrow> day_range \<Rightarrow> call \<Rightarrow> number \<Rightarrow> outcome" where
  "hedge_futures rt e w date r c1 spotVolume =
     (let c2 = signed_call rt e ''https://fapi.binance.com/fapi/v1/userTrades?''
                 (trades_qs r (Date_now w 1))
      in (case fetch w 1 of
            Rejected ex \<Rightarrow> proxy_exception [c1, c2] ex
          | Reply st js \<Rightarrow>
              (case js of
                 Inl ex \<Rightarrow> proxy_exception [c1, c2] ex
               | Inr futTrades \<Rightarrow>
                   (case sumQuoteQty futTrades of
                      Inl ex \<Rightarrow> proxy_exception [c1, c2] ex
                    | Inr futuresVolume \<Rightarrow>
                        respond [c1, c2] 200 (hedge_body date spotVolume futuresVolume)))))"

definition hedge_spot ::
  "variant \<Rightarrow> runtime \<Rightarrow> process_env \<Rightarrow> world \<Rightarrow> qval \<Rightarrow> outcome" where
  "hedge_spot v rt e w date =
     (let r = dayRange v rt e date;
          c1 = signed_call rt e ''https://api.binance.com/api/v3/myTrades?''
                 (trades_qs r (Date_now w 0))
      in (case fetch w 0 of
            Rejected ex \<Rightarrow> proxy_exception [c1] ex
          | Reply st js \<Rightarrow>
              (case js of
                 Inl ex \<Rightarrow> proxy_exception [c1] ex
               | Inr spotTrades \<Rightarrow>
                   (case sumQuoteQty spotTrades of
                      Inl ex \<Rightarrow> proxy_exception [c1] ex
                    | Inr spotVolume \<Rightarrow> hedge_futures rt e w date r c1 spotVolume))))"

text \<open>
  The handler. \<^verbatim>\<open>!date\<close> holds when the parameter is not there and when it is the empty
  string.
\<close>

definition hedge_volume ::
  "variant \<Rightarrow> runtime \<Rightarrow> process_env \<Rightarrow> world \<Rightarrow> request \<Rightarrow> outcome" where
  "hedge_volume v rt e w req =
     (case checkAuth e req of
        Some r \<Rightarrow> r
      | None \<Rightarrow>
          if keys_missing e then missing_binance_keys
          else (case query_date req of
                  None \<Rightarrow> missing_date
                | Some date \<Rightarrow>
                    if date = QStr [] then missing_date else hedge_spot v rt e w date))"

section \<open>What the specification says, in its own words\<close>

text \<open>
  The day range of the specification: the bounds \<^verbatim>\<open>00:00:00\<close> and \<^verbatim>\<open>23:59:59\<close> of a
  calendar date as observed at an offset from UTC, in milliseconds since the epoch. A
  clock that is \<open>offset\<close> minutes ahead of UTC shows a time that many minutes after the UTC
  time of the same instant.
\<close>

definition local_to_utc_ms :: "int \<Rightarrow> int \<Rightarrow> nat \<Rightarrow> nat \<Rightarrow> nat \<Rightarrow> nat \<Rightarrow> nat \<Rightarrow> int" where
  "local_to_utc_ms offset_minutes y m d h mi s = utc_ms y m d h mi s - offset_minutes * 60000"

definition spec_day_range :: "int \<Rightarrow> nat \<Rightarrow> nat \<Rightarrow> nat \<Rightarrow> day_range" where
  "spec_day_range offset_minutes y m d =
     \<lparr>start = Some (local_to_utc_ms offset_minutes (int y) m d 0 0 0),
      end' = Some (local_to_utc_ms offset_minutes (int y) m d 23 59 59)\<rparr>"

text \<open>The text \<^verbatim>\<open>YYYY-MM-DD\<close> of a date.\<close>

definition two_digit_text :: "nat \<Rightarrow> string" where
  "two_digit_text n = [digit_char (n div 10), digit_char (n mod 10)]"

definition iso_date :: "nat \<Rightarrow> nat \<Rightarrow> nat \<Rightarrow> string" where
  "iso_date y m d =
     two_digit_text (y div 100) @ two_digit_text (y mod 100) @ ''-'' @ two_digit_text m @
     ''-'' @ two_digit_text d"

text \<open>
  The aggregate of the specification: the sum over all records, in their order, of
  \<^verbatim>\<open>Number(record.quoteQty)\<close>, with zero for a field that is missing or that is no number,
  and never an exception.
\<close>

definition spec_quoteQty :: "jsval \<Rightarrow> number" where
  "spec_quoteQty t =
     (case bind (get_prop t ''quoteQty'') ToNumber of
        Inl ex \<Rightarrow> Finite 0
      | Inr n \<Rightarrow> if n = NaN then Finite 0 else n)"

definition spec_sum :: "jsval list \<Rightarrow> number" where
  "spec_sum ts = foldl add (Finite 0) (map spec_quoteQty ts)"

text \<open>
  A record that the loop of the handlers takes as the specification says: a value with
  properties, whose \<^verbatim>\<open>quoteQty\<close> is falsy or converts to a number that is not \<open>NaN\<close>. And
  a record that counts as a finite number.
\<close>

definition plain_record :: "jsval \<Rightarrow> bool" where
  "plain_record t =
     (case get_prop t ''quoteQty'' of
        Inl ex \<Rightarrow> False
      | Inr x \<Rightarrow>
          (if truthy x then (case ToNumber x of Inl ex \<Rightarrow> False | Inr n \<Rightarrow> n \<noteq> NaN)
           else True))"

definition finite_record :: "jsval \<Rightarrow> bool" where
  "finite_record t = (case spec_quoteQty t of Finite a \<Rightarrow> True | _ \<Rightarrow> False)"

section \<open>Sample inputs\<close>

text \<open>
  A runtime whose keyed hash is a stand-in that shows its arguments, that reads no text
  outside the date-time format, and whose two other parts, which no sample reaches, are
  stand-ins too; a configuration with every credential set and the default time zone; a
  clock and an upstream.
\<close>

definition sample_runtime :: runtime where
  "sample_runtime =
     \<lparr>hmac_sha256_hex = (\<lambda>key message. ''hmac('' @ key @ '','' @ message @ '')''),
      legacy_date_parse = (\<lambda>s. None),
      Number_toString = (\<lambda>x. ''number''),
      unicode_toUpperCase = (\<lambda>s. s)\<rparr>"

definition sample_env :: process_env where
  "sample_env =
     \<lparr>env_PROXY_API_KEY = Some ''proxy-secret'', env_BINANCE_API_KEY = Some ''api-key'',
      env_BINANCE_API_SECRET = Some ''api-secret'', env_TIMEZONE_OFFSET_HOURS = None\<rparr>"

definition sample_request :: request where
  "sample_request =
     \<lparr>header_X_Proxy_Key = Some ''proxy-secret'', query_key = None, query_symbol = None,
      query_date = Some (QStr ''2025-01-01'')\<rparr>"

text \<open>An upstream that answers every request with status 400 and an error object.\<close>

definition error_object :: jsval where
  "error_object = JObj [(''code'', JNum (Finite (- 1102))), (''msg'', JStr ''bad request'')]"

definition failing_world :: world where
  "failing_world =
     \<lparr>Date_now = (\<lambda>k. 1735700000000 + int k), fetch = (\<lambda>k. Reply 400 (Inr error_object))\<rparr>"

text \<open>An upstream that answers every request with status 502 and a body that is no JSON.\<close>

definition unparseable_world :: world where
  "unparseable_world =
     \<lparr>Date_now = (\<lambda>k. 1735700000000 + int k),
      fetch = (\<lambda>k. Reply 502 (Inl ''SyntaxError''))\<rparr>"

text \<open>An upstream that answers every request with status 200 and an empty list.\<close>

definition quiet_world :: world where
  "quiet_world =
     \<lparr>Date_now = (\<lambda>k. 1735700000000 + int k), fetch = (\<lambda>k. Reply 200 (Inr (JArr [])))\<rparr>"

text \<open>
  Two account documents, one without and one with a BNB entry, and an upstream that
  answers every request with status 200 and a given document.
\<close>

definition usdt_account :: jsval where
  "usdt_account =
     JObj [(''balances'',
            JArr [JObj [(''asset'', JStr ''USDT''), (''free'', JStr ''5''),
                        (''locked'', JStr ''1'')]])]"

definition bnb_account :: jsval where
  "bnb_account =
     JObj [(''balances'',
            JArr [JObj [(''asset'', JStr ''USDT''), (''free'', JStr ''5''),
                        (''locked'', JStr ''1'')],
                  JObj [(''asset'', JStr ''BNB''), (''free'', JStr ''1.5''),
                        (''locked'', JStr ''0.25'')]])]"

definition answering_world :: "jsval \<Rightarrow> world" where
  "answering_world document =
     \<lparr>Date_now = (\<lambda>k. 1735700000000 + int k), fetch = (\<lambda>k. Reply 200 (Inr document))\<rparr>"

text \<open>
  The trade list of the specification's example, \<^verbatim>\<open>[{quoteQty:"10.5"}, {quoteQty:null},
  {quoteQty:"2"}]\<close>, and a list with one record whose quantity is no number.
\<close>

definition example_trades :: jsval where
  "example_trades =
     JArr [JObj [(''quoteQty'', JStr ''10.5'')], JObj [(''quoteQty'', JNull)],
           JObj [(''quoteQty'', JStr ''2'')]]"

definition unparseable_trades :: jsval where
  "unparseable_trades = JArr [JObj [(''quoteQty'', JStr ''abc'')]]"

text \<open>A ticker document, and a request whose \<^verbatim>\<open>date\<close> names a thirteenth month.\<close>

definition ticker_document :: jsval where
  "ticker_document = JObj [(''symbol'', JStr ''BNBUSDT''), (''price'', JStr ''612.5'')]"

definition thirteenth_month_request :: request where
  "thirteenth_month_request = sample_request\<lparr>query_date := Some (QStr ''2025-13-01'')\<rparr>"

section \<open>Numbers that binary64 holds exactly\<close>

lemma pow2_powr: "pow2 e = 2 powr of_int e"
proof (cases "0 \<le> e")
  case True
  then show ?thesis
    by (simp add: pow2_def powr_realpow [symmetric])
next
  case False
  then have "(2::real) powr of_int e = 1 / 2 powr of_int (- e)"
    by (simp add: powr_minus_divide)
  also have "\<dots> = 1 / 2 ^ nat (- e)"
    using False by (simp add: powr_realpow [symmetric])
  finally show ?thesis
    using False by (simp add: pow2_def)
qed

lemma pow2_pos: "0 < pow2 e"
  by (simp add: pow2_powr)

lemma pow2_add: "pow2 (a + b) = pow2 a * pow2 b"
  by (simp add: pow2_powr powr_add)

lemma pow2_nonneg_int: "0 \<le> e \<Longrightarrow> pow2 e = of_int (2 ^ nat e)"
  by (simp add: pow2_def)

lemma pow2_mono: "a \<le> b \<Longrightarrow> pow2 a \<le> pow2 b"
  by (simp add: pow2_powr)

lemma ties_to_even_int: "ties_to_even (of_int k) = k"
  by (simp add: ties_to_even_def)

lemma binade_scaled:
  assumes "m \<noteq> 0"
  shows "binade (of_int m * pow2 e) = \<lfloor>log 2 \<bar>of_int m\<bar>\<rfloor> + e"
proof -
  have m: "0 < \<bar>real_of_int m\<bar>"
    using assms by simp
  have "\<bar>of_int m * pow2 e\<bar> = \<bar>of_int m\<bar> * 2 powr of_int e"
    by (simp add: abs_mult pow2_powr)
  then have "log 2 \<bar>of_int m * pow2 e\<bar> = log 2 \<bar>of_int m\<bar> + of_int e"
    using m by (simp add: log_mult)
  then show ?thesis
    by (simp add: binade_def)
qed

lemma significand_bound:
  assumes "\<bar>m\<bar> < 2 ^ 53"
  shows "\<bar>real_of_int m\<bar> < 2 ^ 53"
proof -
  have "real_of_int \<bar>m\<bar> < real_of_int (2 ^ 53)"
    using assms by (simp only: of_int_less_iff)
  then show ?thesis
    by simp
qed

lemma log2_significand:
  assumes "m \<noteq> 0" and "\<bar>m\<bar> < 2 ^ 53"
  shows "0 \<le> \<lfloor>log 2 \<bar>real_of_int m\<bar>\<rfloor>" and "\<lfloor>log 2 \<bar>real_of_int m\<bar>\<rfloor> \<le> 52"
proof -
  have "1 \<le> \<bar>m\<bar>"
    using assms(1) by simp
  then have "real_of_int 1 \<le> real_of_int \<bar>m\<bar>"
    by (simp only: of_int_le_iff)
  then have one: "1 \<le> \<bar>real_of_int m\<bar>"
    by simp
  then have "0 \<le> log 2 \<bar>real_of_int m\<bar>"
    by simp
  then show "0 \<le> \<lfloor>log 2 \<bar>real_of_int m\<bar>\<rfloor>"
    by simp
  have "\<bar>real_of_int m\<bar> < 2 powr 53"
    using significand_bound [OF assms(2)] by simp
  then have "log 2 \<bar>real_of_int m\<bar> < 53"
    using one by (subst log_less_iff) simp_all
  then show "\<lfloor>log 2 \<bar>real_of_int m\<bar>\<rfloor> \<le> 52"
    by linarith
qed

text \<open>
  A number \<open>m \<cdot> 2\<^sup>e\<close> with a significand below \<open>2\<^sup>5\<^sup>3\<close> and an exponent in the range of
  binary64 is a binary64 value: rounding gives it back.
\<close>

lemma round64_binary64:
  assumes "\<bar>m\<bar> < 2 ^ 53" and "- 1074 \<le> e" and "e \<le> 971"
  shows "round64 (of_int m * pow2 e) = Finite (of_int m * pow2 e)"
proof (cases "m = 0")
  case True
  then show ?thesis
    by (simp add: round64_def)
next
  case False
  define x where "x = real_of_int m * pow2 e"
  define u where "u = ulp_exponent x"
  define b where "b = \<lfloor>log 2 \<bar>real_of_int m\<bar>\<rfloor>"
  have b: "0 \<le> b" "b \<le> 52"
    unfolding b_def by (rule log2_significand [OF False assms(1)])+
  have "binade x = b + e"
    unfolding x_def b_def by (rule binade_scaled [OF False])
  then have ue: "u \<le> e"
    using b assms(2) by (simp add: u_def ulp_exponent_def max_def)
  have "pow2 e = pow2 (e - u) * pow2 u"
    using pow2_add [of "e - u" u] by simp
  also have "\<dots> = of_int (2 ^ nat (e - u)) * pow2 u"
    using ue by (simp add: pow2_nonneg_int)
  finally have pe: "pow2 e = of_int (2 ^ nat (e - u)) * pow2 u" .
  have q: "x / pow2 u = of_int (m * 2 ^ nat (e - u))"
    using pow2_pos [of u] by (simp add: x_def pe)
  have r: "of_int (ties_to_even (x / pow2 u)) * pow2 u = x"
    unfolding q ties_to_even_int using pow2_pos [of u] by (simp add: x_def pe)
  have "\<bar>x\<bar> = \<bar>real_of_int m\<bar> * pow2 e"
    using pow2_pos [of e] by (simp add: x_def abs_mult)
  also have "\<dots> < 2 ^ 53 * pow2 e"
    using significand_bound [OF assms(1)] pow2_pos [of e] by simp
  also have "\<dots> \<le> 2 ^ 53 * pow2 971"
    using pow2_mono [OF assms(3)] by simp
  also have "\<dots> = pow2 (53 + 971)"
    by (simp add: pow2_add) (simp add: pow2_def)
  finally have lt: "\<bar>x\<bar> < pow2 1024"
    by simp
  have "x \<noteq> 0"
    using False pow2_pos [of e] by (simp add: x_def)
  then have "round64 x = Finite x"
    using lt by (simp add: round64_def Let_def r u_def [symmetric])
  then show ?thesis
    by (simp add: x_def)
qed

lemma round64_int:
  assumes "\<bar>n\<bar> < 2 ^ 53"
  shows "round64 (of_int n) = Finite (of_int n)"
  using round64_binary64 [OF assms, of 0] by (simp add: pow2_def)

lemma round64_dyadic:
  assumes "\<bar>n\<bar> < 2 ^ 53" and "k \<le> 1074"
  shows "round64 (of_int n / 2 ^ k) = Finite (of_int n / 2 ^ k)"
proof (cases "k = 0")
  case True
  then show ?thesis
    using round64_int [OF assms(1)] by simp
next
  case False
  then show ?thesis
    using round64_binary64 [OF assms(1), of "- int k"] assms(2) by (simp add: pow2_def)
qed

lemma round64_not_NaN: "round64 x \<noteq> NaN"
  by (simp add: round64_def Let_def)

lemma round64_0: "round64 0 = Finite 0"
  by (simp add: round64_def)

text \<open>The numbers of the samples.\<close>

lemma round64_samples:
  "round64 (21 / 2) = Finite (21 / 2)" "round64 2 = Finite 2" "round64 (25 / 2) = Finite (25 / 2)"
  "round64 (1225 / 2) = Finite (1225 / 2)" "round64 (3 / 2) = Finite (3 / 2)"
  "round64 (1 / 4) = Finite (1 / 4)" "round64 (7 / 4) = Finite (7 / 4)" "round64 5 = Finite 5"
  "round64 1 = Finite 1"
  using round64_dyadic [of 21 1] round64_int [of 2] round64_dyadic [of 25 1]
    round64_dyadic [of 1225 1] round64_dyadic [of 3 1] round64_dyadic [of 1 2]
    round64_dyadic [of 7 2] round64_int [of 5] round64_int [of 1]
  by simp_all

section \<open>Evaluating texts\<close>

lemmas number_defs = StringToNumber_def trim_def white_space_texts_def leading_length_def
  StrUnsignedLiteral_def StrUnsignedDecimalLiteral_def ExponentPart_def SignedInteger_def
  pow10_def is_digit_def nat_of_digits_def digit_val_def round64_0

lemmas symbol_defs = symbol_of_def toUpperCase_def is_ascii_def upper_char_def
  encodeURIComponent_def encode_char_def uri_unreserved_def hex_char_def

lemmas env_defs = PROXY_API_KEY_def BINANCE_API_KEY_def BINANCE_API_SECRET_def or_empty_def
  sample_env_def

lemma StringToNumber_samples:
  "StringToNumber ''0'' = Finite 0" "StringToNumber ''10.5'' = Finite (21 / 2)"
  "StringToNumber ''2'' = Finite 2" "StringToNumber ''612.5'' = Finite (1225 / 2)"
  "StringToNumber ''1.5'' = Finite (3 / 2)" "StringToNumber ''0.25'' = Finite (1 / 4)"
  "StringToNumber ''abc'' = NaN" "StringToNumber ''5'' = Finite 5"
  "StringToNumber ''1'' = Finite 1"
  by (simp_all add: number_defs round64_samples)

section \<open>Facts about the sample inputs\<close>

lemma sample_authorised: "checkAuth sample_env sample_request = None"
  by (simp add: env_defs sample_request_def checkAuth_def supplied_key_def)

lemma sample_keys: "BINANCE_API_KEY sample_env \<noteq> []" "BINANCE_API_SECRET sample_env \<noteq> []"
  by (simp_all add: env_defs)

lemma sample_date:
  "query_date sample_request = Some (QStr ''2025-01-01'')" "QStr ''2025-01-01'' \<noteq> QStr []"
  by (simp_all add: sample_request_def)

lemma sample_symbol: "symbol_of rt sample_request = Inr ''BNBUSDT''"
  by (simp add: sample_request_def symbol_defs)

lemma encode_BNBUSDT: "encodeURIComponent ''BNBUSDT'' = ''BNBUSDT''"
  by (simp add: symbol_defs)

lemma failing_world_fetch: "fetch failing_world k = Reply 400 (Inr error_object)"
  by (simp add: failing_world_def)

lemma answering_world_fetch: "fetch (answering_world document) k = Reply 200 (Inr document)"
  by (simp add: answering_world_def)

lemma ok_samples: "\<not> ok 400" "ok 200"
  by (simp_all add: ok_def)

section \<open>The authenticator guards every handler\<close>

lemma checkAuth_cases: "checkAuth e req = None \<or> checkAuth e req = Some unauthorized"
  by (simp add: checkAuth_def)

lemma handlers_unauthorized:
  assumes "checkAuth e req = Some r"
  shows "price rt e w req = r" "futures_price rt e w req = r" "balance rt e w req = r"
    "futures_balance rt e w req = r" "hedge_volume v rt e w req = r"
  using assms
  by (simp_all add: price_def futures_price_def balance_def futures_balance_def hedge_volume_def)

text \<open>
  Claim C5. \<^verbatim>\<open>checkAuth\<close> lets a request pass exactly when the configured proxy key is not
  empty and the supplied token is that key: the header \<^verbatim>\<open>X-Proxy-Key\<close>, or the query
  parameter \<^verbatim>\<open>key\<close> when the header is absent or empty. In every other case it answers
  401 \<^verbatim>\<open>{error: "Unauthorized"}\<close>, and each of the five handlers ends with that answer and
  no upstream request.
\<close>

theorem authenticator_gate:
  "(checkAuth e req = None \<longleftrightarrow>
      PROXY_API_KEY e \<noteq> [] \<and>
      (header_X_Proxy_Key req = Some (PROXY_API_KEY e) \<or>
       (header_X_Proxy_Key req = None \<or> header_X_Proxy_Key req = Some []) \<and>
       query_key req = Some (QStr (PROXY_API_KEY e)))) \<and>
   (checkAuth e req \<noteq> None \<longrightarrow>
      checkAuth e req = Some unauthorized \<and>
      price rt e w req = unauthorized \<and>
      futures_price rt e w req = unauthorized \<and>
      balance rt e w req = unauthorized \<and>
      futures_balance rt e w req = unauthorized \<and>
      hedge_volume v rt e w req = unauthorized) \<and>
   calls unauthorized = [] \<and> status unauthorized = 401 \<and>
   body unauthorized = JObj [(''error'', JStr ''Unauthorized'')]"
proof (intro conjI impI)
  show "checkAuth e req = None \<longleftrightarrow>
      PROXY_API_KEY e \<noteq> [] \<and>
      (header_X_Proxy_Key req = Some (PROXY_API_KEY e) \<or>
       (header_X_Proxy_Key req = None \<or> header_X_Proxy_Key req = Some []) \<and>
       query_key req = Some (QStr (PROXY_API_KEY e)))"
    by (cases "header_X_Proxy_Key req") (auto simp add: checkAuth_def supplied_key_def)
next
  assume "checkAuth e req \<noteq> None"
  then have u: "checkAuth e req = Some unauthorized"
    using checkAuth_cases [of e req] by auto
  show "checkAuth e req = Some unauthorized" by (rule u)
  show "price rt e w req = unauthorized" by (rule handlers_unauthorized(1) [OF u])
  show "futures_price rt e w req = unauthorized" by (rule handlers_unauthorized(2) [OF u])
  show "balance rt e w req = unauthorized" by (rule handlers_unauthorized(3) [OF u])
  show "futures_balance rt e w req = unauthorized" by (rule handlers_unauthorized(4) [OF u])
  show "hedge_volume v rt e w req = unauthorized" by (rule handlers_unauthorized(5) [OF u])
qed (simp_all add: unauthorized_def respond_def)

theorem authenticator_gate_witness:
  "checkAuth sample_env sample_request = None \<and>
   checkAuth sample_env (sample_request\<lparr>header_X_Proxy_Key := Some ''guess''\<rparr>) =
     Some unauthorized \<and>
   hedge_volume Part_000 sample_runtime sample_env quiet_world
     (sample_request\<lparr>header_X_Proxy_Key := Some ''guess''\<rparr>) = unauthorized \<and>
   price sample_runtime sample_env quiet_world
     (sample_request\<lparr>header_X_Proxy_Key := Some ''guess''\<rparr>) = unauthorized \<and>
   status unauthorized = 401"
  using authenticator_gate [of sample_env sample_request sample_runtime quiet_world Part_000]
    authenticator_gate [of sample_env "sample_request\<lparr>header_X_Proxy_Key := Some ''guess''\<rparr>"
      sample_runtime quiet_world Part_000]
  by (simp add: env_defs sample_request_def)

section \<open>Missing exchange credentials\<close>

lemma calls_unauthorized: "calls unauthorized = []"
  by (simp add: unauthorized_def respond_def)

lemma calls_missing_binance_keys: "calls missing_binance_keys = []"
  by (simp add: missing_binance_keys_def respond_def)

lemma keys_missing_outcome:
  assumes "keys_missing e"
  shows "balance rt e w req = (case checkAuth e req of Some r \<Rightarrow> r | None \<Rightarrow> missing_binance_keys)"
    "futures_balance rt e w req = (case checkAuth e req of Some r \<Rightarrow> r | None \<Rightarrow> missing_binance_keys)"
    "hedge_volume v rt e w req = (case checkAuth e req of Some r \<Rightarrow> r | None \<Rightarrow> missing_binance_keys)"
  using assms by (simp_all add: balance_def futures_balance_def hedge_volume_def)

lemma calls_ticker_price:
  "symbol_of rt req = Inr symbol \<Longrightarrow>
   calls (ticker_price rt type address w req) =
     [\<lparr>url = address @ encodeURIComponent symbol, X_MBX_APIKEY = None\<rparr>]"
  by (simp add: ticker_price_def Let_def proxy_exception_def binance_error_def respond_def
      split: reply.split sum.split)

text \<open>The answer of a price lookup to a good upstream reply.\<close>

lemma ticker_price_success:
  assumes "symbol_of rt req = Inr symbol" and "fetch w 0 = Reply st (Inr data)" and "ok st"
    and "get_prop data ''price'' = Inr p" and "ToNumber p = Inr n"
  shows "ticker_price rt type address w req =
           respond [\<lparr>url = address @ encodeURIComponent symbol, X_MBX_APIKEY = None\<rparr>] 200
             (JObj [(''type'', JStr type), (''symbol'', JStr symbol), (''price'', JNum n)])"
  using assms by (simp add: ticker_price_def bind_def)

text \<open>No answer of a price lookup is the answer for missing credentials.\<close>

lemma ticker_price_body:
  "body (ticker_price rt type address w req) \<noteq> JObj [(''error'', JStr ''missing_binance_keys'')]"
  by (simp add: ticker_price_def Let_def proxy_exception_def binance_error_def respond_def
      split: reply.split sum.split)

lemma price_body:
  "body (price rt e w req) \<noteq> JObj [(''error'', JStr ''missing_binance_keys'')]"
  "body (futures_price rt e w req) \<noteq> JObj [(''error'', JStr ''missing_binance_keys'')]"
  using checkAuth_cases [of e req]
  by (auto simp add: price_def futures_price_def ticker_price_body unauthorized_def respond_def)

text \<open>The symbol of a price lookup.\<close>

lemma symbol_of_ascii:
  "query_symbol req = None \<Longrightarrow> symbol_of rt req = Inr ''BNBUSDT''"
  "query_symbol req = Some (QStr s) \<Longrightarrow> s \<noteq> [] \<Longrightarrow> list_all is_ascii s \<Longrightarrow>
     symbol_of rt req = Inr (map upper_char s)"
  by (simp_all add: symbol_defs)

text \<open>
  Claim C8. When the API key or the API secret of the exchange is not configured, the
  three signed handlers send no upstream request, and for an authorised request each of
  them answers 400 \<^verbatim>\<open>{error: "missing_binance_keys"}\<close>. The two price handlers never give
  that answer: for an authorised request they send their one public request, without a key
  header, for the symbol of the request in upper case (\<^verbatim>\<open>BNBUSDT\<close> when there is none), and
  they answer a good upstream reply with 200 and the type, the symbol and the price.
\<close>

theorem missing_keys_block_signed_handlers:
  assumes "BINANCE_API_KEY e = [] \<or> BINANCE_API_SECRET e = []"
  shows "calls (balance rt e w req) = [] \<and>
         calls (futures_balance rt e w req) = [] \<and>
         calls (hedge_volume v rt e w req) = [] \<and>
         (checkAuth e req = None \<longrightarrow>
            balance rt e w req = missing_binance_keys \<and>
            futures_balance rt e w req = missing_binance_keys \<and>
            hedge_volume v rt e w req = missing_binance_keys) \<and>
         calls missing_binance_keys = [] \<and> status missing_binance_keys = 400 \<and>
         body missing_binance_keys = JObj [(''error'', JStr ''missing_binance_keys'')] \<and>
         body (price rt e w req) \<noteq> JObj [(''error'', JStr ''missing_binance_keys'')] \<and>
         body (futures_price rt e w req) \<noteq> JObj [(''error'', JStr ''missing_binance_keys'')] \<and>
         (query_symbol req = None \<longrightarrow> symbol_of rt req = Inr ''BNBUSDT'') \<and>
         (query_symbol req = Some (QStr s) \<and> s \<noteq> [] \<and> list_all is_ascii s \<longrightarrow>
            symbol_of rt req = Inr (map upper_char s)) \<and>
         (checkAuth e req = None \<and> symbol_of rt req = Inr symbol \<longrightarrow>
            calls (price rt e w req) =
              [\<lparr>url = ''https://api.binance.com/api/v3/ticker/price?symbol='' @
                       encodeURIComponent symbol, X_MBX_APIKEY = None\<rparr>] \<and>
            calls (futures_price rt e w req) =
              [\<lparr>url = ''https://fapi.binance.com/fapi/v1/ticker/price?symbol='' @
                       encodeURIComponent symbol, X_MBX_APIKEY = None\<rparr>] \<and>
            (fetch w 0 = Reply st (Inr data) \<and> ok st \<and> get_prop data ''price'' = Inr p \<and>
             ToNumber p = Inr n \<longrightarrow>
               status (price rt e w req) = 200 \<and>
               body (price rt e w req) =
                 JObj [(''type'', JStr ''spot''), (''symbol'', JStr symbol),
                       (''price'', JNum n)] \<and>
               status (futures_price rt e w req) = 200 \<and>
               body (futures_price rt e w req) =
                 JObj [(''type'', JStr ''futures''), (''symbol'', JStr symbol),
                       (''price'', JNum n)]))"
proof -
  have km: "keys_missing e"
    using assms by (simp add: keys_missing_def)
  have nocalls: "calls (case checkAuth e req of Some r \<Rightarrow> r | None \<Rightarrow> missing_binance_keys) = []"
    using checkAuth_cases [of e req]
    by (auto simp add: calls_unauthorized calls_missing_binance_keys)
  have blocked: "calls (balance rt e w req) = [] \<and>
         calls (futures_balance rt e w req) = [] \<and>
         calls (hedge_volume v rt e w req) = [] \<and>
         (checkAuth e req = None \<longrightarrow>
            balance rt e w req = missing_binance_keys \<and>
            futures_balance rt e w req = missing_binance_keys \<and>
            hedge_volume v rt e w req = missing_binance_keys)"
    using nocalls by (auto simp add: keys_missing_outcome [OF km])
  have answer: "calls missing_binance_keys = [] \<and> status missing_binance_keys = 400 \<and>
         body missing_binance_keys = JObj [(''error'', JStr ''missing_binance_keys'')]"
    by (simp add: missing_binance_keys_def respond_def)
  have symbols: "(query_symbol req = None \<longrightarrow> symbol_of rt req = Inr ''BNBUSDT'') \<and>
         (query_symbol req = Some (QStr s) \<and> s \<noteq> [] \<and> list_all is_ascii s \<longrightarrow>
            symbol_of rt req = Inr (map upper_char s))"
    by (simp add: symbol_of_ascii)
  have available: "checkAuth e req = None \<and> symbol_of rt req = Inr symbol \<longrightarrow>
            calls (price rt e w req) =
              [\<lparr>url = ''https://api.binance.com/api/v3/ticker/price?symbol='' @
                       encodeURIComponent symbol, X_MBX_APIKEY = None\<rparr>] \<and>
            calls (futures_price rt e w req) =
              [\<lparr>url = ''https://fapi.binance.com/fapi/v1/ticker/price?symbol='' @
                       encodeURIComponent symbol, X_MBX_APIKEY = None\<rparr>] \<and>
            (fetch w 0 = Reply st (Inr data) \<and> ok st \<and> get_prop data ''price'' = Inr p \<and>
             ToNumber p = Inr n \<longrightarrow>
               status (price rt e w req) = 200 \<and>
               body (price rt e w req) =
                 JObj [(''type'', JStr ''spot''), (''symbol'', JStr symbol),
                       (''price'', JNum n)] \<and>
               status (futures_price rt e w req) = 200 \<and>
               body (futures_price rt e w req) =
                 JObj [(''type'', JStr ''futures''), (''symbol'', JStr symbol),
                       (''price'', JNum n)])"
    by (auto simp add: price_def futures_price_def calls_ticker_price ticker_price_success
        respond_def)
  from blocked answer price_body [of rt e w req] symbols available show ?thesis
    by blast
qed

theorem missing_keys_block_signed_handlers_witness:
  "balance sample_runtime (sample_env\<lparr>env_BINANCE_API_KEY := None\<rparr>)
     (answering_world ticker_document) sample_request = missing_binance_keys \<and>
   calls (hedge_volume Part_000 sample_runtime (sample_env\<lparr>env_BINANCE_API_KEY := None\<rparr>)
     (answering_world ticker_document) sample_request) = [] \<and>
   calls (price sample_runtime (sample_env\<lparr>env_BINANCE_API_KEY := None\<rparr>)
     (answering_world ticker_document) sample_request) =
     [\<lparr>url = ''https://api.binance.com/api/v3/ticker/price?symbol=BNBUSDT'',
       X_MBX_APIKEY = None\<rparr>] \<and>
   status (price sample_runtime (sample_env\<lparr>env_BINANCE_API_KEY := None\<rparr>)
     (answering_world ticker_document) sample_request) = 200 \<and>
   body (price sample_runtime (sample_env\<lparr>env_BINANCE_API_KEY := None\<rparr>)
     (answering_world ticker_document) sample_request) =
     JObj [(''type'', JStr ''spot''), (''symbol'', JStr ''BNBUSDT''),
           (''price'', JNum (Finite (1225 / 2)))]"
proof -
  have k: "BINANCE_API_KEY (sample_env\<lparr>env_BINANCE_API_KEY := None\<rparr>) = [] \<or>
           BINANCE_API_SECRET (sample_env\<lparr>env_BINANCE_API_KEY := None\<rparr>) = []"
    by (simp add: env_defs)
  have a: "checkAuth (sample_env\<lparr>env_BINANCE_API_KEY := None\<rparr>) sample_request = None"
    by (simp add: env_defs sample_request_def checkAuth_def supplied_key_def)
  have p: "get_prop ticker_document ''price'' = Inr (JStr ''612.5'')"
    by (simp add: ticker_document_def)
  have n: "ToNumber (JStr ''612.5'') = Inr (Finite (1225 / 2))"
    by (simp add: StringToNumber_samples)
  show ?thesis
    using missing_keys_block_signed_handlers [OF k, of sample_runtime
        "answering_world ticker_document" sample_request Part_000 "''BNBUSDT''" "''BNBUSDT''"
        200 ticker_document "JStr ''612.5''" "Finite (1225 / 2)"]
      a p n sample_symbol [of sample_runtime] answering_world_fetch [of ticker_document 0]
      ok_samples(2)
    by (auto simp add: encode_BNBUSDT)
qed

section \<open>The date of \<^verbatim>\<open>/hedge-volume\<close>\<close>

text \<open>
  Claim C9. An authorised \<^verbatim>\<open>/hedge-volume\<close> request with both exchange credentials
  configured and no \<^verbatim>\<open>date\<close> parameter (or an empty one) is answered 400
  \<^verbatim>\<open>{error: "missing_date"}\<close>, and no upstream request is sent.
\<close>

theorem hedge_volume_requires_date:
  assumes "checkAuth e req = None"
    and "BINANCE_API_KEY e \<noteq> []" and "BINANCE_API_SECRET e \<noteq> []"
    and "query_date req = None \<or> query_date req = Some (QStr [])"
  shows "hedge_volume v rt e w req = missing_date \<and>
         calls (hedge_volume v rt e w req) = [] \<and>
         status (hedge_volume v rt e w req) = 400 \<and>
         body (hedge_volume v rt e w req) = JObj [(''error'', JStr ''missing_date'')]"
  using assms
  by (auto simp add: hedge_volume_def keys_missing_def missing_date_def respond_def)

theorem hedge_volume_requires_date_witness:
  "hedge_volume Index_js sample_runtime sample_env quiet_world
     (sample_request\<lparr>query_date := None\<rparr>) = missing_date \<and>
   status (hedge_volume Part_000 sample_runtime sample_env quiet_world
     (sample_request\<lparr>query_date := None\<rparr>)) = 400 \<and>
   calls (hedge_volume Part_000 sample_runtime sample_env quiet_world
     (sample_request\<lparr>query_date := None\<rparr>)) = []"
proof -
  have a: "checkAuth sample_env (sample_request\<lparr>query_date := None\<rparr>) = None"
    by (simp add: env_defs sample_request_def checkAuth_def supplied_key_def)
  have k: "BINANCE_API_KEY sample_env \<noteq> []" "BINANCE_API_SECRET sample_env \<noteq> []"
    by (simp_all add: env_defs)
  have d: "query_date (sample_request\<lparr>query_date := None\<rparr>) = None \<or>
           query_date (sample_request\<lparr>query_date := None\<rparr>) = Some (QStr [])"
    by simp
  show ?thesis
    using hedge_volume_requires_date [OF a k d, of Index_js sample_runtime quiet_world]
      hedge_volume_requires_date [OF a k d, of Part_000 sample_runtime quiet_world]
    by (simp add: missing_date_def respond_def)
qed

section \<open>Upstream replies in \<^verbatim>\<open>/hedge-volume\<close>\<close>

lemma sumQuoteQty_non_list: "\<not> Array_isArray trades \<Longrightarrow> sumQuoteQty trades = Inr (Finite 0)"
  by (simp add: sumQuoteQty_def)

lemma Number_toFixed2_0: "Number_toFixed2 (Finite 0) = Finite 0"
  by (simp add: round64_0)

lemma hedge_volume_proceeds:
  assumes "checkAuth e req = None" and "BINANCE_API_KEY e \<noteq> []"
    and "BINANCE_API_SECRET e \<noteq> []" and "query_date req = Some date" and "date \<noteq> QStr []"
  shows "hedge_volume v rt e w req = hedge_spot v rt e w date"
  using assms by (simp add: hedge_volume_def keys_missing_def)

lemma hedge_spot_answer:
  assumes "fetch w 0 = Reply st1 (Inr spotTrades)" and "fetch w 1 = Reply st2 (Inr futTrades)"
    and "sumQuoteQty spotTrades = Inr sv" and "sumQuoteQty futTrades = Inr fv"
  shows "status (hedge_spot v rt e w date) = 200"
    and "body (hedge_spot v rt e w date) = hedge_body date sv fv"
    and "length (calls (hedge_spot v rt e w date)) = 2"
  using assms by (simp_all add: hedge_spot_def hedge_futures_def Let_def respond_def)

lemma error_object_no_list: "\<not> Array_isArray error_object"
  by (simp add: error_object_def)



section \<open>Upstream errors\<close>

lemma ticker_price_relay:
  assumes "symbol_of rt req = Inr symbol" and "fetch w 0 = Reply st (Inr data)" and "\<not> ok st"
  shows "ticker_price rt type address w req =
           binance_error [\<lparr>url = address @ encodeURIComponent symbol, X_MBX_APIKEY = None\<rparr>]
             st data"
  using assms by (simp add: ticker_price_def)

lemma balance_relay:
  assumes "checkAuth e req = None" and "\<not> keys_missing e"
    and "fetch w 0 = Reply st (Inr data)" and "\<not> ok st"
  shows "balance rt e w req =
           binance_error
             [signed_call rt e ''https://api.binance.com/api/v3/account?'' (balance_qs w)] st data"
    and "futures_balance rt e w req =
           binance_error
             [signed_call rt e ''https://fapi.binance.com/fapi/v2/balance?'' (balance_qs w)]
             st data"
  using assms by (simp_all add: balance_def futures_balance_def)

lemma binance_error_fields:
  "status (binance_error cs st data) = st"
  "body (binance_error cs st data) = JObj [(''error'', JStr ''binance_error''), (''data'', data)]"
  by (simp_all add: binance_error_def respond_def)

text \<open>
  Claim C4, as amended. \<^verbatim>\<open>/price\<close>, \<^verbatim>\<open>/futures-price\<close>, \<^verbatim>\<open>/balance\<close> and
  \<^verbatim>\<open>/futures-balance\<close> relay an upstream reply with a status outside 200 to 299 and a body
  that parses as JSON: they answer with the same status and
  \<^verbatim>\<open>{error: "binance_error", data}\<close>, \<open>data\<close> being the upstream body. \<^verbatim>\<open>/hedge-volume\<close> does not look at the status of its two
  replies: when their bodies are JSON values that are no lists, it answers 200 with both
  volumes zero.
\<close>

theorem upstream_error_relay:
  assumes "checkAuth e req = None" and "fetch w 0 = Reply st (Inr data)" and "\<not> ok st"
  shows "(symbol_of rt req = Inr symbol \<longrightarrow>
            status (price rt e w req) = st \<and>
            body (price rt e w req) =
              JObj [(''error'', JStr ''binance_error''), (''data'', data)] \<and>
            status (futures_price rt e w req) = st \<and>
            body (futures_price rt e w req) =
              JObj [(''error'', JStr ''binance_error''), (''data'', data)]) \<and>
         (BINANCE_API_KEY e \<noteq> [] \<and> BINANCE_API_SECRET e \<noteq> [] \<longrightarrow>
            status (balance rt e w req) = st \<and>
            body (balance rt e w req) =
              JObj [(''error'', JStr ''binance_error''), (''data'', data)] \<and>
            status (futures_balance rt e w req) = st \<and>
            body (futures_balance rt e w req) =
              JObj [(''error'', JStr ''binance_error''), (''data'', data)]) \<and>
         (BINANCE_API_KEY e \<noteq> [] \<and> BINANCE_API_SECRET e \<noteq> [] \<and>
          query_date req = Some date \<and> date \<noteq> QStr [] \<and> \<not> Array_isArray data \<and>
          fetch w 1 = Reply st' (Inr data') \<and> \<not> Array_isArray data' \<longrightarrow>
            status (hedge_volume v rt e w req) = 200 \<and>
            body (hedge_volume v rt e w req) =
              JObj [(''date'', js_of_qval date), (''spotHedgeVolumeUSDT'', JNum (Finite 0)),
                    (''futuresHedgeVolumeUSDT'', JNum (Finite 0))])"
proof (intro conjI impI)
  assume s: "symbol_of rt req = Inr symbol"
  note r = ticker_price_relay [OF s assms(2,3)]
  show "status (price rt e w req) = st"
    and "body (price rt e w req) = JObj [(''error'', JStr ''binance_error''), (''data'', data)]"
    and "status (futures_price rt e w req) = st"
    and "body (futures_price rt e w req) =
           JObj [(''error'', JStr ''binance_error''), (''data'', data)]"
    by (simp_all add: price_def futures_price_def assms(1) r binance_error_fields)
next
  assume "BINANCE_API_KEY e \<noteq> [] \<and> BINANCE_API_SECRET e \<noteq> []"
  then have k: "\<not> keys_missing e"
    by (simp add: keys_missing_def)
  note r = balance_relay [OF assms(1) k assms(2,3)]
  show "status (balance rt e w req) = st"
    and "body (balance rt e w req) = JObj [(''error'', JStr ''binance_error''), (''data'', data)]"
    and "status (futures_balance rt e w req) = st"
    and "body (futures_balance rt e w req) =
           JObj [(''error'', JStr ''binance_error''), (''data'', data)]"
    by (simp_all add: r binance_error_fields)
next
  assume h: "BINANCE_API_KEY e \<noteq> [] \<and> BINANCE_API_SECRET e \<noteq> [] \<and>
          query_date req = Some date \<and> date \<noteq> QStr [] \<and> \<not> Array_isArray data \<and>
          fetch w 1 = Reply st' (Inr data') \<and> \<not> Array_isArray data'"
  then have hv: "hedge_volume v rt e w req = hedge_spot v rt e w date"
    using hedge_volume_proceeds [OF assms(1), of date v rt w] by simp
  from h have z: "sumQuoteQty data = Inr (Finite 0)" "sumQuoteQty data' = Inr (Finite 0)"
    by (simp_all add: sumQuoteQty_non_list)
  from h have f1: "fetch w 1 = Reply st' (Inr data')"
    by simp
  note ans = hedge_spot_answer [OF assms(2) f1 z, of v rt e date]
  show "status (hedge_volume v rt e w req) = 200"
    and "body (hedge_volume v rt e w req) =
              JObj [(''date'', js_of_qval date), (''spotHedgeVolumeUSDT'', JNum (Finite 0)),
                    (''futuresHedgeVolumeUSDT'', JNum (Finite 0))]"
    by (simp_all add: hv ans hedge_body_def Number_toFixed2_0 del: Number_toFixed2.simps)
qed

theorem upstream_error_relay_witness:
  "status (price sample_runtime sample_env failing_world sample_request) = 400 \<and>
   body (price sample_runtime sample_env failing_world sample_request) =
     JObj [(''error'', JStr ''binance_error''), (''data'', error_object)] \<and>
   status (balance sample_runtime sample_env failing_world sample_request) = 400 \<and>
   body (futures_balance sample_runtime sample_env failing_world sample_request) =
     JObj [(''error'', JStr ''binance_error''), (''data'', error_object)] \<and>
   status (hedge_volume Index_js sample_runtime sample_env failing_world sample_request) = 200"
  using upstream_error_relay [OF sample_authorised failing_world_fetch ok_samples(1),
      of sample_runtime "''BNBUSDT''" "QStr ''2025-01-01''" 400 error_object Index_js]
    sample_symbol [of sample_runtime] sample_keys sample_date error_object_no_list
    failing_world_fetch [of 1]
  by simp

text \<open>
  The claim as it was stated fails for \<^verbatim>\<open>/hedge-volume\<close>: an upstream that answers both
  signed requests with status 400 and an error object gets the caller a 200 with zero
  volumes, not the 400 and the error object. And a reply with status 502 whose body is no
  JSON is answered 500 by \<^verbatim>\<open>/price\<close> and \<^verbatim>\<open>/balance\<close>, from their \<^verbatim>\<open>catch\<close> block.
\<close>

theorem hedge_volume_hides_upstream_error:
  "fetch failing_world 0 = Reply 400 (Inr error_object) \<and>
   fetch failing_world 1 = Reply 400 (Inr error_object) \<and>
   status (hedge_volume Part_000 sample_runtime sample_env failing_world sample_request) = 200 \<and>
   body (hedge_volume Part_000 sample_runtime sample_env failing_world sample_request) =
     JObj [(''date'', JStr ''2025-01-01''), (''spotHedgeVolumeUSDT'', JNum (Finite 0)),
           (''futuresHedgeVolumeUSDT'', JNum (Finite 0))] \<and>
   status (hedge_volume Index_js sample_runtime sample_env failing_world sample_request) = 200 \<and>
   fetch unparseable_world 0 = Reply 502 (Inl ''SyntaxError'') \<and>
   status (price sample_runtime sample_env unparseable_world sample_request) = 500 \<and>
   status (balance sample_runtime sample_env unparseable_world sample_request) = 500"
proof -
  have z: "sumQuoteQty error_object = Inr (Finite 0)"
    by (rule sumQuoteQty_non_list [OF error_object_no_list])
  note hv = hedge_volume_proceeds [OF sample_authorised sample_keys sample_date]
  note ans = hedge_spot_answer [OF failing_world_fetch failing_world_fetch z z]
  have u: "fetch unparseable_world 0 = Reply 502 (Inl ''SyntaxError'')"
    by (simp add: unparseable_world_def)
  have k: "\<not> keys_missing sample_env"
    using sample_keys by (simp add: keys_missing_def)
  have p: "status (price sample_runtime sample_env unparseable_world sample_request) = 500"
    by (simp add: price_def sample_authorised ticker_price_def sample_symbol u
        proxy_exception_def respond_def)
  have b: "status (balance sample_runtime sample_env unparseable_world sample_request) = 500"
    by (simp add: balance_def sample_authorised k u proxy_exception_def respond_def)
  show ?thesis
    by (simp add: hv ans hedge_body_def failing_world_fetch Number_toFixed2_0 u p b
        del: Number_toFixed2.simps)
qed

section \<open>The answer of \<^verbatim>\<open>/balance\<close>\<close>

lemma BNB_body_shape:
  assumes "BNB_body data = Inr b"
  shows "\<exists>free locked. b = JObj [(''asset'', JStr ''BNB''), (''free'', JNum free),
           (''locked'', JNum locked), (''total'', JNum (add free locked))]"
  using assms
  by (auto simp add: BNB_body_def bind_def Let_def split: sum.splits)

lemma balance_success_shape:
  assumes "status (balance rt e w req) = 200"
  shows "\<exists>free locked. body (balance rt e w req) =
           JObj [(''asset'', JStr ''BNB''), (''free'', JNum free),
                 (''locked'', JNum locked), (''total'', JNum (add free locked))]"
proof (cases "checkAuth e req")
  case (Some r)
  then have "balance rt e w req = unauthorized"
    using checkAuth_cases [of e req] by (simp add: balance_def)
  with assms show ?thesis
    by (simp add: unauthorized_def respond_def)
next
  case None
  show ?thesis
  proof (cases "keys_missing e")
    case True
    with None assms show ?thesis
      by (simp add: balance_def missing_binance_keys_def respond_def)
  next
    case False
    show ?thesis
    proof (cases "fetch w 0")
      case (Rejected ex)
      with None False assms show ?thesis
        by (simp add: balance_def proxy_exception_def respond_def)
    next
      case (Reply st js)
      show ?thesis
      proof (cases js)
        case (Inl ex)
        with None False Reply assms show ?thesis
          by (simp add: balance_def proxy_exception_def respond_def)
      next
        case (Inr data)
        show ?thesis
        proof (cases "ok st")
          case False
          then have "st \<noteq> 200"
            by (auto simp add: ok_def)
          with None \<open>\<not> keys_missing e\<close> Reply Inr False assms show ?thesis
            by (simp add: balance_def binance_error_def respond_def)
        next
          case True
          show ?thesis
          proof (cases "BNB_body data")
            case (Inl ex)
            with None \<open>\<not> keys_missing e\<close> Reply \<open>js = Inr data\<close> True assms show ?thesis
              by (simp add: balance_def proxy_exception_def respond_def)
          next
            case b: (Inr b)
            with None \<open>\<not> keys_missing e\<close> Reply \<open>js = Inr data\<close> True
            have "body (balance rt e w req) = b"
              by (simp add: balance_def respond_def)
            with BNB_body_shape [OF b] show ?thesis
              by simp
          qed
        qed
      qed
    qed
  qed
qed

lemma find_BNB_none:
  assumes "\<forall>b\<in>set xs. \<exists>a. get_prop b ''asset'' = Inr a \<and> a \<noteq> JStr ''BNB''"
  shows "find_BNB xs = Inr JUndefined"
  using assms by (induction xs) auto

lemma BNB_body_default:
  assumes "find_in_balances data = Inr JUndefined"
  shows "BNB_body data =
           Inr (JObj [(''asset'', JStr ''BNB''), (''free'', JNum (Finite 0)),
                      (''locked'', JNum (Finite 0)), (''total'', JNum (Finite 0))])"
  using assms
  by (simp add: BNB_body_def bind_def or_else_def number_or_0_def StringToNumber_samples
      round64_0)

lemma find_in_balances_none:
  assumes "get_prop data ''balances'' = Inr bl"
    and "\<not> truthy bl \<or>
         (\<exists>xs. bl = JArr xs \<and>
               (\<forall>b\<in>set xs. \<exists>a. get_prop b ''asset'' = Inr a \<and> a \<noteq> JStr ''BNB''))"
  shows "find_in_balances data = Inr JUndefined"
  using assms
  by (auto simp add: find_in_balances_def bind_def or_else_def find_BNB_none)

text \<open>
  Claim C10. Every answer of \<^verbatim>\<open>/balance\<close> with status 200 has the body
  \<^verbatim>\<open>{asset: "BNB", free, locked, total}\<close> with \<open>total\<close> the sum \<^verbatim>\<open>free + locked\<close>. When the
  account document of a good upstream reply has no \<^verbatim>\<open>balances\<close> (or a falsy one), or has a
  list \<^verbatim>\<open>balances\<close> of entries none of which has the asset \<^verbatim>\<open>BNB\<close>, the answer is 200
  \<^verbatim>\<open>{asset: "BNB", free: 0, locked: 0, total: 0}\<close>.
\<close>

theorem balance_total_and_default:
  "(status (balance rt e w req) = 200 \<longrightarrow>
      (\<exists>free locked. body (balance rt e w req) =
         JObj [(''asset'', JStr ''BNB''), (''free'', JNum free), (''locked'', JNum locked),
               (''total'', JNum (add free locked))])) \<and>
   (checkAuth e req = None \<and> BINANCE_API_KEY e \<noteq> [] \<and> BINANCE_API_SECRET e \<noteq> [] \<and>
    fetch w 0 = Reply st (Inr data) \<and> ok st \<and> get_prop data ''balances'' = Inr bl \<and>
    (\<not> truthy bl \<or>
     (\<exists>xs. bl = JArr xs \<and>
           (\<forall>b\<in>set xs. \<exists>a. get_prop b ''asset'' = Inr a \<and> a \<noteq> JStr ''BNB''))) \<longrightarrow>
      status (balance rt e w req) = 200 \<and>
      body (balance rt e w req) =
        JObj [(''asset'', JStr ''BNB''), (''free'', JNum (Finite 0)),
              (''locked'', JNum (Finite 0)), (''total'', JNum (Finite 0))])"
proof (intro conjI impI)
  assume "status (balance rt e w req) = 200"
  then show "\<exists>free locked. body (balance rt e w req) =
         JObj [(''asset'', JStr ''BNB''), (''free'', JNum free), (''locked'', JNum locked),
               (''total'', JNum (add free locked))]"
    by (rule balance_success_shape)
next
  assume h: "checkAuth e req = None \<and> BINANCE_API_KEY e \<noteq> [] \<and> BINANCE_API_SECRET e \<noteq> [] \<and>
    fetch w 0 = Reply st (Inr data) \<and> ok st \<and> get_prop data ''balances'' = Inr bl \<and>
    (\<not> truthy bl \<or>
     (\<exists>xs. bl = JArr xs \<and>
           (\<forall>b\<in>set xs. \<exists>a. get_prop b ''asset'' = Inr a \<and> a \<noteq> JStr ''BNB'')))"
  then have "find_in_balances data = Inr JUndefined"
    by (intro find_in_balances_none [of data bl]) simp_all
  then have d: "BNB_body data =
           Inr (JObj [(''asset'', JStr ''BNB''), (''free'', JNum (Finite 0)),
                      (''locked'', JNum (Finite 0)), (''total'', JNum (Finite 0))])"
    by (rule BNB_body_default)
  from h show "status (balance rt e w req) = 200"
    and "body (balance rt e w req) =
        JObj [(''asset'', JStr ''BNB''), (''free'', JNum (Finite 0)),
              (''locked'', JNum (Finite 0)), (''total'', JNum (Finite 0))]"
    by (simp_all add: balance_def keys_missing_def d respond_def)
qed

lemma bnb_account_body:
  "BNB_body bnb_account =
     Inr (JObj [(''asset'', JStr ''BNB''), (''free'', JNum (Finite (3 / 2))),
                (''locked'', JNum (Finite (1 / 4))), (''total'', JNum (Finite (7 / 4)))])"
  by (simp add: bnb_account_def BNB_body_def find_in_balances_def bind_def or_else_def
      number_or_0_def StringToNumber_samples round64_samples)

theorem balance_total_and_default_witness:
  "body (balance sample_runtime sample_env (answering_world usdt_account) sample_request) =
     JObj [(''asset'', JStr ''BNB''), (''free'', JNum (Finite 0)),
           (''locked'', JNum (Finite 0)), (''total'', JNum (Finite 0))] \<and>
   body (balance sample_runtime sample_env (answering_world ticker_document) sample_request) =
     JObj [(''asset'', JStr ''BNB''), (''free'', JNum (Finite 0)),
           (''locked'', JNum (Finite 0)), (''total'', JNum (Finite 0))] \<and>
   status (balance sample_runtime sample_env (answering_world bnb_account) sample_request) = 200 \<and>
   (\<exists>free locked.
      body (balance sample_runtime sample_env (answering_world bnb_account) sample_request) =
        JObj [(''asset'', JStr ''BNB''), (''free'', JNum free), (''locked'', JNum locked),
              (''total'', JNum (add free locked))])"
proof -
  have s: "status (balance sample_runtime sample_env (answering_world bnb_account)
             sample_request) = 200"
    by (simp add: balance_def sample_authorised keys_missing_def sample_keys
        answering_world_fetch ok_samples bnb_account_body respond_def)
  have u: "get_prop usdt_account ''balances'' =
             Inr (JArr [JObj [(''asset'', JStr ''USDT''), (''free'', JStr ''5''),
                              (''locked'', JStr ''1'')]])"
    by (simp add: usdt_account_def)
  have t: "get_prop ticker_document ''balances'' = Inr JUndefined"
    by (simp add: ticker_document_def)
  show ?thesis
    using balance_total_and_default [of sample_runtime sample_env "answering_world bnb_account"
        sample_request]
      balance_total_and_default [of sample_runtime sample_env "answering_world usdt_account"
        sample_request 200 usdt_account
        "JArr [JObj [(''asset'', JStr ''USDT''), (''free'', JStr ''5''),
                     (''locked'', JStr ''1'')]]"]
      balance_total_and_default [of sample_runtime sample_env "answering_world ticker_document"
        sample_request 200 ticker_document JUndefined]
      s u t sample_authorised sample_keys
    by (simp add: answering_world_fetch ok_samples)
qed

section \<open>The signed requests\<close>

lemma calls_balance:
  assumes "checkAuth e req = None" and "\<not> keys_missing e"
  shows "calls (balance rt e w req) =
           [signed_call rt e ''https://api.binance.com/api/v3/account?'' (balance_qs w)]"
    and "calls (futures_balance rt e w req) =
           [signed_call rt e ''https://fapi.binance.com/fapi/v2/balance?'' (balance_qs w)]"
  using assms
  by (simp_all add: balance_def futures_balance_def Let_def proxy_exception_def
      binance_error_def respond_def split: reply.split sum.split)

lemma calls_hedge_spot_both:
  assumes "fetch w 0 = Reply st (Inr spotTrades)" and "sumQuoteQty spotTrades = Inr sv"
  shows "calls (hedge_spot v rt e w date) =
     [signed_call rt e ''https://api.binance.com/api/v3/myTrades?''
        (trades_qs (dayRange v rt e date) (Date_now w 0)),
      signed_call rt e ''https://fapi.binance.com/fapi/v1/userTrades?''
        (trades_qs (dayRange v rt e date) (Date_now w 1))]"
  using assms
  by (simp add: hedge_spot_def hedge_futures_def Let_def proxy_exception_def respond_def
      split: reply.split sum.split)

section \<open>The text of an offset and of a date\<close>

lemma lt10_cases:
  "d < 10 \<Longrightarrow> d = 0 \<or> d = 1 \<or> d = 2 \<or> d = 3 \<or> d = 4 \<or> d = 5 \<or> d = 6 \<or> d = 7 \<or> d = 8 \<or> d = (9::nat)"
  by arith

lemma digit_char_digit:
  assumes "d < 10"
  shows "is_digit (digit_char d)" and "digit_val (digit_char d) = d"
  using lt10_cases [OF assms]
  by (auto simp add: is_digit_def digit_val_def digit_char_def)

lemma is_digit_not_separator:
  assumes "is_digit c"
  shows "c \<noteq> CHR ''T''" and "c \<noteq> CHR ''-''" and "c \<noteq> CHR ''+''" and "c \<noteq> CHR '':''"
  using assms by (auto simp add: is_digit_def)

lemma two_digits_text:
  assumes "n < 100"
  shows "two_digits (digit_char (n div 10)) (digit_char (n mod 10)) = Some n"
proof -
  have "n div 10 < 10" "n mod 10 < 10"
    using assms by simp_all
  then show ?thesis
    by (simp add: two_digits_def digit_char_digit)
qed

lemma String_nat_two_digits:
  assumes "n < 100"
  shows "padStart2 (String_nat n) = two_digit_text n"
proof (cases "n < 10")
  case True
  then show ?thesis
    by (simp add: String_nat.simps [of n] padStart2_def two_digit_text_def digit_char_def)
next
  case False
  with assms have "n div 10 < 10"
    by simp
  with False show ?thesis
    by (simp add: String_nat.simps [of n] String_nat.simps [of "n div 10"] padStart2_def
        two_digit_text_def)
qed

lemma String_number_nat:
  assumes "n < 100"
  shows "padStart2 (String_number rt (Finite (real n))) = two_digit_text n"
proof -
  have "\<bar>real n\<bar> < 10 ^ 21"
    using assms by simp
  then show ?thesis
    by (simp add: String_int_def String_nat_two_digits [OF assms])
qed

lemma offsetStr_quarters:
  assumes "q * 4 = of_int j" and "\<bar>j\<bar> < 96"
  shows "offsetStr rt (Finite q) =
           (if 0 \<le> j then ''+'' else ''-'') @ two_digit_text (nat \<bar>j\<bar> div 4) @ '':'' @
           two_digit_text (15 * (nat \<bar>j\<bar> mod 4))"
proof -
  define n where "n = nat \<bar>j\<bar>"
  have q: "\<bar>q\<bar> = real n / 4"
  proof -
    have "\<bar>q\<bar> * 4 = \<bar>of_int j\<bar>"
      using assms(1) by (simp add: abs_mult [symmetric])
    then show ?thesis
      by (simp add: n_def field_simps)
  qed
  have n: "n < 96"
    using assms(2) by (simp add: n_def)
  have fl: "\<lfloor>\<bar>q\<bar>\<rfloor> = int (n div 4)"
    using floor_divide_of_nat_eq [of n 4, where ?'a = real] by (simp add: q)
  have e: "real n = real (n div 4) * 4 + real (n mod 4)"
  proof -
    have "real n = real (n div 4 * 4 + n mod 4)"
      by simp
    also have "\<dots> = real (n div 4) * 4 + real (n mod 4)"
      by (simp only: of_nat_add of_nat_mult of_nat_numeral)
    finally show ?thesis .
  qed
  have fr: "\<bar>q\<bar> - real (n div 4) = real_of_int (int (n mod 4)) / 2 ^ 2"
    using e by (simp add: q field_simps)
  have sb: "sub (Finite \<bar>q\<bar>) (Finite (real (n div 4))) = Finite (real_of_int (int (n mod 4)) / 2 ^ 2)"
    using round64_dyadic [of "int (n mod 4)" 2] by (simp add: sub_def fr)
  have m60: "real_of_int (int (n mod 4)) / 2 ^ 2 * 60 = real_of_int (int (15 * (n mod 4)))"
    by simp
  have ml: "mul (Finite (real_of_int (int (n mod 4)) / 2 ^ 2)) (Finite 60) =
              Finite (real (15 * (n mod 4)))"
    using round64_int [of "int (15 * (n mod 4))"] by (simp only: mul.simps m60) simp
  have rd: "Math_round (Finite (real (15 * (n mod 4)))) = Finite (real (15 * (n mod 4)))"
  proof -
    have "\<lfloor>real (15 * (n mod 4)) + 1 / 2\<rfloor> = int (15 * (n mod 4))"
      by linarith
    then show ?thesis
      by (simp only: Math_round.simps) simp
  qed
  have sg: "ge0 (Finite q) = (0 \<le> j)"
  proof -
    have "(0 \<le> q) = (0 \<le> q * 4)"
      by simp
    also have "\<dots> = (0 \<le> j)"
      by (simp add: assms(1))
    finally show ?thesis
      by simp
  qed
  have h: "n div 4 < 100" "15 * (n mod 4) < 100"
    using n by simp_all
  have fl': "Math_floor (Finite \<bar>q\<bar>) = Finite (real (n div 4))"
    by (simp add: fl)
  have "offsetStr rt (Finite q) =
           (if 0 \<le> j then ''+'' else ''-'') @ two_digit_text (n div 4) @ '':'' @
           two_digit_text (15 * (n mod 4))"
    unfolding offsetStr_def Let_def sg Math_abs.simps fl' sb ml rd
      String_number_nat [OF h(1)] String_number_nat [OF h(2)]
    by simp
  then show ?thesis
    by (simp add: n_def)
qed

lemma iso_date_chars:
  "iso_date y m d =
     [digit_char (y div 100 div 10), digit_char (y div 100 mod 10),
      digit_char (y mod 100 div 10), digit_char (y mod 100 mod 10), CHR ''-'',
      digit_char (m div 10), digit_char (m mod 10), CHR ''-'',
      digit_char (d div 10), digit_char (d mod 10)]"
  by (simp add: iso_date_def two_digit_text_def)

lemma iso_parse_chars:
  assumes "is_digit c1" "is_digit c2" "is_digit c3" "is_digit c4" "is_digit c5" "is_digit c6"
    "is_digit c7" "is_digit c8"
    and "parse_time tm = Some (h, mi, s)" and "length tm = 8"
    and "parse_zone z = Some (sg, zh, zm)"
  shows "iso_parse ([c1, c2, c3, c4, CHR ''-'', c5, c6, CHR ''-'', c7, c8] @ ''T'' @ tm @ z) =
           Some \<lparr>minus_zero_year = False,
                 year = int (nat_of_digits [c1, c2, c3, c4]),
                 month = 10 * digit_val c5 + digit_val c6,
                 day = 10 * digit_val c7 + digit_val c8,
                 hour = h, minute = mi, second = s,
                 zone_sign = sg, zone_hour = zh, zone_minute = zm\<rparr>"
  using assms
  by (simp add: iso_parse_def parse_year_def two_digits_def is_digit_not_separator)

lemma four_digits_value:
  fixes y :: nat
  shows "10 * (10 * (10 * (y div 100 div 10) + y div 100 mod 10) + y mod 100 div 10) +
         y mod 100 mod 10 = y"
proof -
  define a where "a = y div 100 div 10"
  define b where "b = y div 100 mod 10"
  define c where "c = y mod 100 div 10"
  define d where "d = y mod 100 mod 10"
  define hi where "hi = y div 100"
  define lo where "lo = y mod 100"
  have 1: "10 * a + b = hi"
    by (simp add: a_def b_def hi_def)
  have 2: "10 * c + d = lo"
    by (simp add: c_def d_def lo_def)
  have 3: "100 * hi + lo = y"
    by (simp add: hi_def lo_def)
  have "10 * (10 * (10 * a + b) + c) + d = 100 * (10 * a + b) + (10 * c + d)"
    by (simp add: algebra_simps)
  also have "\<dots> = y"
    by (simp only: 1 2 3)
  finally show ?thesis
    by (simp only: a_def b_def c_def d_def)
qed

lemma nat_of_four_digits:
  assumes "y < 10000"
  shows "nat_of_digits [digit_char (y div 100 div 10), digit_char (y div 100 mod 10),
           digit_char (y mod 100 div 10), digit_char (y mod 100 mod 10)] = y"
proof -
  have "y div 100 div 10 < 10" "y div 100 mod 10 < 10" "y mod 100 div 10 < 10"
    "y mod 100 mod 10 < 10"
    using assms by simp_all
  then have "nat_of_digits [digit_char (y div 100 div 10), digit_char (y div 100 mod 10),
           digit_char (y mod 100 div 10), digit_char (y mod 100 mod 10)] =
         10 * (10 * (10 * (y div 100 div 10) + y div 100 mod 10) + y mod 100 div 10) +
         y mod 100 mod 10"
    by (simp add: nat_of_digits_def digit_char_digit)
  then show ?thesis
    by (simp only: four_digits_value)
qed

lemma iso_parse_date:
  assumes "y < 10000" and "m < 100" and "d < 100"
    and "parse_time tm = Some (h, mi, s)" and "length tm = 8"
    and "parse_zone z = Some (sg, zh, zm)"
  shows "iso_parse (iso_date y m d @ ''T'' @ tm @ z) =
           Some \<lparr>minus_zero_year = False, year = int y, month = m, day = d,
                 hour = h, minute = mi, second = s,
                 zone_sign = sg, zone_hour = zh, zone_minute = zm\<rparr>"
proof -
  have b: "y div 100 div 10 < 10" "y div 100 mod 10 < 10" "y mod 100 div 10 < 10"
    "y mod 100 mod 10 < 10" "m div 10 < 10" "m mod 10 < 10" "d div 10 < 10" "d mod 10 < 10"
    using assms(1-3) by simp_all
  show ?thesis
    unfolding iso_date_chars
    by (subst iso_parse_chars [OF _ _ _ _ _ _ _ _ assms(4-6)])
      (simp_all add: digit_char_digit b nat_of_four_digits [OF assms(1)])
qed

section \<open>The time value of a date with a time and a zone\<close>

lemma parse_time_bounds:
  "parse_time ''00:00:00'' = Some (0, 0, 0)" "parse_time ''23:59:59'' = Some (23, 59, 59)"
  by (simp_all add: two_digits_def is_digit_def digit_val_def)

lemma parse_zone_Z: "parse_zone ''Z'' = Some (1, 0, 0)"
  by simp

lemma parse_zone_offset:
  assumes "zh < 100" and "zm < 100"
  shows "parse_zone ((if pos then ''+'' else ''-'') @ two_digit_text zh @ '':'' @ two_digit_text zm)
           = Some (if pos then 1 else - 1, zh, zm)"
  using assms by (simp add: two_digit_text_def two_digits_text)

lemma DayFromYear_bounds:
  assumes "0 \<le> y" and "y < 10000"
  shows "- 720000 \<le> DayFromYear y" and "DayFromYear y < 2940000"
proof -
  have a: "(0 - 1969) div 4 \<le> (y - 1969) div 4" "(y - 1969) div 4 \<le> (9999 - 1969) div 4"
    using assms by (intro zdiv_mono1; simp)+
  have b: "(0 - 1901) div 100 \<le> (y - 1901) div 100"
    "(y - 1901) div 100 \<le> (9999 - 1901) div 100"
    using assms by (intro zdiv_mono1; simp)+
  have c: "(0 - 1601) div 400 \<le> (y - 1601) div 400"
    "(y - 1601) div 400 \<le> (9999 - 1601) div 400"
    using assms by (intro zdiv_mono1; simp)+
  define A where "A = (y - 1969) div 4"
  define B where "B = (y - 1901) div 100"
  define C where "C = (y - 1601) div 400"
  have i: "- 493 \<le> A" "A \<le> 2007" "- 20 \<le> B" "B \<le> 80" "- 5 \<le> C" "C \<le> 20"
    using a b c by (simp_all add: A_def B_def C_def)
  have e: "DayFromYear y = 365 * (y - 1970) + A - B + C"
    by (simp add: DayFromYear_def A_def B_def C_def)
  show "- 720000 \<le> DayFromYear y" and "DayFromYear y < 2940000"
    unfolding e using i assms by simp_all
qed

lemma days_before_month_bounds:
  assumes "1 \<le> m" and "m \<le> 12"
  shows "0 \<le> days_before_month y m" and "days_before_month y m \<le> 335"
proof -
  have "m = 1 \<or> m = 2 \<or> m = 3 \<or> m = 4 \<or> m = 5 \<or> m = 6 \<or> m = 7 \<or> m = 8 \<or> m = 9 \<or>
        m = 10 \<or> m = 11 \<or> m = 12"
    using assms by arith
  then show "0 \<le> days_before_month y m" and "days_before_month y m \<le> 335"
    by (auto simp add: days_before_month_def)
qed

lemma days_in_month_le: "days_in_month y m \<le> 31"
  by (simp add: days_in_month_def)

lemma utc_ms_clip:
  assumes "y < 10000" and "1 \<le> m" and "m \<le> 12" and "d \<le> 31" and "h < 24" and "mi < 60"
    and "s < 60" and "\<bar>k\<bar> < 1440"
  shows "TimeClip (utc_ms (int y) m d h mi s - k * 60000) =
           Some (utc_ms (int y) m d h mi s - k * 60000)"
proof -
  have "0 \<le> int y" "int y < 10000"
    using assms(1) by simp_all
  note dy = DayFromYear_bounds [OF this]
  note dm = days_before_month_bounds [OF assms(2,3), of "int y"]
  define D where "D = DayFromYear (int y) + days_before_month (int y) m"
  have D: "- 720000 \<le> D" "D < 2950000"
    using dy dm by (simp_all add: D_def)
  have kk: "- 1440 < k" "k < 1440"
    using assms(8) by simp_all
  have u: "utc_ms (int y) m d h mi s - k * 60000 =
             (D + int d - 1) * 86400000 + int h * 3600000 + int mi * 60000 + int s * 1000 -
             k * 60000"
    by (simp add: utc_ms_def MakeDay_def D_def)
  have "- 8640000000000000 \<le> utc_ms (int y) m d h mi s - k * 60000"
    and "utc_ms (int y) m d h mi s - k * 60000 \<le> 8640000000000000"
    unfolding u using D assms(4-7) kk by (simp_all add: algebra_simps)
  then have "\<bar>utc_ms (int y) m d h mi s - k * 60000\<bar> \<le> 8640000000000000"
    by simp
  then show ?thesis
    by (simp add: TimeClip_def)
qed

lemma Date_getTime_date:
  assumes "y < 10000" and "1 \<le> m" and "m \<le> 12" and "1 \<le> d"
    and "d \<le> days_in_month (int y) m"
    and "parse_time tm = Some (h, mi, s)" and "length tm = 8"
    and "h < 24" and "mi < 60" and "s < 60"
    and "parse_zone z = Some (sg, zh, zm)" and "zh < 24" and "zm < 60"
    and "sg = 1 \<or> sg = - 1"
  shows "Date_getTime rt (iso_date y m d @ ''T'' @ tm @ z) =
           Some (local_to_utc_ms (sg * (int zh * 60 + int zm)) (int y) m d h mi s)"
proof -
  have d31: "d \<le> 31"
    using assms(5) days_in_month_le [of "int y" m] by simp
  have md: "m < 100" "d < 100"
    using assms(3) d31 by simp_all
  have kb: "\<bar>sg * (int zh * 60 + int zm)\<bar> < 1440"
    using assms(12-14) by (auto simp add: abs_mult)
  note clip = utc_ms_clip [OF assms(1-3) d31 assms(8-10) kb]
  note p = iso_parse_date [OF assms(1) md assms(6,7,11)]
  show ?thesis
    unfolding Date_getTime_def p
    using assms(2-5,8-10,12,13) d31
    by (simp add: in_bounds_def iso_time_value_def local_to_utc_ms_def clip)
qed

section \<open>The day range\<close>

lemma quarters_minutes:
  fixes j :: int
  shows "(if 0 \<le> j then 1 else - 1) * (int (nat \<bar>j\<bar> div 4) * 60 + int (15 * (nat \<bar>j\<bar> mod 4))) =
         15 * j"
proof -
  define n where "n = nat \<bar>j\<bar>"
  have "int (n div 4) * 60 + int (15 * (n mod 4)) = 15 * int (n div 4 * 4 + n mod 4)"
    by (simp only: of_nat_add of_nat_mult) simp
  also have "\<dots> = 15 * int n"
    by simp
  finally have "int (n div 4) * 60 + int (15 * (n mod 4)) = 15 * \<bar>j\<bar>"
    by (simp add: n_def)
  then show ?thesis
    by (simp add: n_def)
qed

text \<open>The bounds of a local day, for an offset of a whole number of quarter hours.\<close>

lemma getDayRange_quarters:
  assumes "tzOffsetHours e = Finite q" and "q * 4 = of_int j" and "\<bar>j\<bar> < 96"
    and "y < 10000" and "1 \<le> m" and "m \<le> 12" and "1 \<le> d"
    and "d \<le> days_in_month (int y) m"
  shows "getDayRange rt e (QStr (iso_date y m d)) = spec_day_range (15 * j) y m d"
proof -
  define zh where "zh = nat \<bar>j\<bar> div 4"
  define zm where "zm = 15 * (nat \<bar>j\<bar> mod 4)"
  define z where "z = (if 0 \<le> j then ''+'' else ''-'') @ two_digit_text zh @ '':'' @
    two_digit_text zm"
  have zb: "zh < 24" "zm < 60"
    using assms(3) by (simp_all add: zh_def zm_def)
  have off: "offsetStr rt (tzOffsetHours e) = z"
    unfolding assms(1) z_def zh_def zm_def by (rule offsetStr_quarters [OF assms(2,3)])
  have pz: "parse_zone z = Some (if 0 \<le> j then 1 else - 1, zh, zm)"
    unfolding z_def using zb by (intro parse_zone_offset) simp_all
  have sg: "(if 0 \<le> j then 1 else - 1) = (1::int) \<or> (if 0 \<le> j then 1 else - 1) = (- 1::int)"
    by simp
  have k: "(if 0 \<le> j then 1 else - 1) * (int zh * 60 + int zm) = 15 * j"
    unfolding zh_def zm_def by (rule quarters_minutes)
  have s: "Date_getTime rt (iso_date y m d @ ''T'' @ ''00:00:00'' @ z) =
             Some (local_to_utc_ms (15 * j) (int y) m d 0 0 0)"
    using Date_getTime_date [OF assms(4-8) parse_time_bounds(1) _ _ _ _ pz zb sg, of rt]
    by (simp add: k)
  have t: "Date_getTime rt (iso_date y m d @ ''T'' @ ''23:59:59'' @ z) =
             Some (local_to_utc_ms (15 * j) (int y) m d 23 59 59)"
    using Date_getTime_date [OF assms(4-8) parse_time_bounds(2) _ _ _ _ pz zb sg, of rt]
    by (simp add: k)
  show ?thesis
    using s t by (simp add: getDayRange_def off spec_day_range_def)
qed

lemma getDayRangeUTC_date:
  assumes "y < 10000" and "1 \<le> m" and "m \<le> 12" and "1 \<le> d"
    and "d \<le> days_in_month (int y) m"
  shows "getDayRangeUTC rt (QStr (iso_date y m d)) = spec_day_range 0 y m d"
proof -
  have s: "Date_getTime rt (iso_date y m d @ ''T'' @ ''00:00:00'' @ ''Z'') =
             Some (local_to_utc_ms 0 (int y) m d 0 0 0)"
    using Date_getTime_date [OF assms parse_time_bounds(1) _ _ _ _ parse_zone_Z, of rt]
    by simp
  have t: "Date_getTime rt (iso_date y m d @ ''T'' @ ''23:59:59'' @ ''Z'') =
             Some (local_to_utc_ms 0 (int y) m d 23 59 59)"
    using Date_getTime_date [OF assms parse_time_bounds(2) _ _ _ _ parse_zone_Z, of rt]
    by simp
  show ?thesis
    using s t by (simp add: getDayRangeUTC_def spec_day_range_def)
qed


lemmas date_defs = utc_ms_def MakeDay_def DayFromYear_def days_before_month_def
  days_in_month_def is_leap_def local_to_utc_ms_def spec_day_range_def

lemma iso_date_2025_01_01: "iso_date 2025 1 1 = ''2025-01-01''"
  by (simp add: iso_date_def two_digit_text_def digit_char_def)

lemma sample_tz: "tzOffsetHours sample_env = Finite 8"
  by (simp add: tzOffsetHours_def sample_env_def)




section \<open>Dates outside the calendar\<close>

text \<open>A date whose month or day is out of bounds has no time value.\<close>

lemma Date_getTime_out_of_bounds:
  assumes "y < 10000" and "m < 100" and "d < 100"
    and "m = 0 \<or> 12 < m \<or> d = 0 \<or> 31 < d"
    and "parse_time tm = Some (h, mi, s)" and "length tm = 8"
    and "parse_zone z = Some (sg, zh, zm)"
  shows "Date_getTime rt (iso_date y m d @ ''T'' @ tm @ z) = None"
proof -
  note p = iso_parse_date [OF assms(1-3,5-7)]
  show ?thesis
    unfolding Date_getTime_def p using assms(4) by (auto simp add: in_bounds_def)
qed

lemma getDayRange_out_of_bounds:
  assumes "tzOffsetHours e = Finite q" and "q * 4 = of_int j" and "\<bar>j\<bar> < 96"
    and "y < 10000" and "m < 100" and "d < 100"
    and "m = 0 \<or> 12 < m \<or> d = 0 \<or> 31 < d"
  shows "getDayRange rt e (QStr (iso_date y m d)) = \<lparr>start = None, end' = None\<rparr>"
proof -
  define zh where "zh = nat \<bar>j\<bar> div 4"
  define zm where "zm = 15 * (nat \<bar>j\<bar> mod 4)"
  define z where "z = (if 0 \<le> j then ''+'' else ''-'') @ two_digit_text zh @ '':'' @
    two_digit_text zm"
  have zb: "zh < 100" "zm < 100"
    using assms(3) by (simp_all add: zh_def zm_def)
  have off: "offsetStr rt (tzOffsetHours e) = z"
    unfolding assms(1) z_def zh_def zm_def by (rule offsetStr_quarters [OF assms(2,3)])
  have pz: "parse_zone z = Some (if 0 \<le> j then 1 else - 1, zh, zm)"
    unfolding z_def using zb by (intro parse_zone_offset) simp_all
  have s: "Date_getTime rt (iso_date y m d @ ''T'' @ ''00:00:00'' @ z) = None"
    by (rule Date_getTime_out_of_bounds [OF assms(4-7) parse_time_bounds(1) _ pz]) simp
  have t: "Date_getTime rt (iso_date y m d @ ''T'' @ ''23:59:59'' @ z) = None"
    by (rule Date_getTime_out_of_bounds [OF assms(4-7) parse_time_bounds(2) _ pz]) simp
  show ?thesis
    using s t by (simp add: getDayRange_def off)
qed

lemma getDayRangeUTC_out_of_bounds:
  assumes "y < 10000" and "m < 100" and "d < 100"
    and "m = 0 \<or> 12 < m \<or> d = 0 \<or> 31 < d"
  shows "getDayRangeUTC rt (QStr (iso_date y m d)) = \<lparr>start = None, end' = None\<rparr>"
proof -
  have s: "Date_getTime rt (iso_date y m d @ ''T'' @ ''00:00:00'' @ ''Z'') = None"
    by (rule Date_getTime_out_of_bounds [OF assms parse_time_bounds(1) _ parse_zone_Z]) simp
  have t: "Date_getTime rt (iso_date y m d @ ''T'' @ ''23:59:59'' @ ''Z'') = None"
    by (rule Date_getTime_out_of_bounds [OF assms parse_time_bounds(2) _ parse_zone_Z]) simp
  show ?thesis
    using s t by (simp add: getDayRangeUTC_def)
qed

lemma calls_hedge_spot_first:
  "take 1 (calls (hedge_spot v rt e w date)) =
     [signed_call rt e ''https://api.binance.com/api/v3/myTrades?''
        (trades_qs (dayRange v rt e date) (Date_now w 0))]"
  by (simp add: hedge_spot_def hedge_futures_def Let_def proxy_exception_def respond_def
      split: reply.split sum.split)

lemma iso_date_not_empty: "QStr (iso_date y m d) \<noteq> QStr []"
  by (simp add: iso_date_chars)

text \<open>
  Claim C7, as amended. For a text \<open>YYYY-MM-DD\<close> of four, two and two digits whose month is
  not one of 01 to 12 or whose day is not one of 01 to 31, and a configured offset of a
  whole number of quarter hours below 24 hours, both resolvers return without an error the
  pair whose \<open>start\<close> and \<open>end\<close> are \<open>NaN\<close>; \<^verbatim>\<open>/hedge-volume\<close> raises no error either, and the
  first signed request it sends upstream carries \<^verbatim>\<open>startTime=NaN&endTime=NaN\<close>. For every
  \<^verbatim>\<open>date\<close> that is not empty, of a calendar day or not, \<^verbatim>\<open>/hedge-volume\<close> sends its first
  signed request with the bounds that the resolver returned.
\<close>

theorem invalid_date_gives_NaN_range:
  assumes "tzOffsetHours e = Finite q" and "q * 4 = of_int j" and "\<bar>j\<bar> < 96"
    and "y < 10000" and "m < 100" and "d < 100"
    and "m = 0 \<or> 12 < m \<or> d = 0 \<or> 31 < d"
  shows "getDayRange rt e (QStr (iso_date y m d)) = \<lparr>start = None, end' = None\<rparr> \<and>
         getDayRangeUTC rt (QStr (iso_date y m d)) = \<lparr>start = None, end' = None\<rparr> \<and>
         (checkAuth e req = None \<and> BINANCE_API_KEY e \<noteq> [] \<and> BINANCE_API_SECRET e \<noteq> [] \<and>
          query_date req = Some (QStr (iso_date y m d)) \<longrightarrow>
            take 1 (map url (calls (hedge_volume v rt e w req))) =
              [''https://api.binance.com/api/v3/myTrades?'' @
               ''startTime=NaN&endTime=NaN&timestamp='' @ String_int (Date_now w 0) @
               ''&signature='' @
               hmac_sha256_hex rt (BINANCE_API_SECRET e)
                 (''startTime=NaN&endTime=NaN&timestamp='' @ String_int (Date_now w 0))]) \<and>
         (checkAuth e req' = None \<and> BINANCE_API_KEY e \<noteq> [] \<and> BINANCE_API_SECRET e \<noteq> [] \<and>
          query_date req' = Some date \<and> date \<noteq> QStr [] \<longrightarrow>
            take 1 (calls (hedge_volume v rt e w req')) =
              [signed_call rt e ''https://api.binance.com/api/v3/myTrades?''
                 (trades_qs (dayRange v rt e date) (Date_now w 0))])"
proof -
  note a = getDayRange_out_of_bounds [OF assms, of rt]
  note b = getDayRangeUTC_out_of_bounds [OF assms(4-7), of rt]
  have r: "dayRange v rt e (QStr (iso_date y m d)) = \<lparr>start = None, end' = None\<rparr>"
    by (cases v) (simp_all add: dayRange_def a b)
  have "checkAuth e req = None \<and> BINANCE_API_KEY e \<noteq> [] \<and> BINANCE_API_SECRET e \<noteq> [] \<and>
          query_date req = Some (QStr (iso_date y m d)) \<longrightarrow>
            take 1 (map url (calls (hedge_volume v rt e w req))) =
              [''https://api.binance.com/api/v3/myTrades?'' @
               ''startTime=NaN&endTime=NaN&timestamp='' @ String_int (Date_now w 0) @
               ''&signature='' @
               hmac_sha256_hex rt (BINANCE_API_SECRET e)
                 (''startTime=NaN&endTime=NaN&timestamp='' @ String_int (Date_now w 0))]"
  proof
    assume h: "checkAuth e req = None \<and> BINANCE_API_KEY e \<noteq> [] \<and>
      BINANCE_API_SECRET e \<noteq> [] \<and> query_date req = Some (QStr (iso_date y m d))"
    then have hv: "hedge_volume v rt e w req = hedge_spot v rt e w (QStr (iso_date y m d))"
      by (intro hedge_volume_proceeds iso_date_not_empty) simp_all
    have "take 1 (map url (calls (hedge_volume v rt e w req))) =
            map url (take 1 (calls (hedge_volume v rt e w req)))"
      by (simp add: take_map)
    also have "\<dots> = [url (signed_call rt e ''https://api.binance.com/api/v3/myTrades?''
        (trades_qs \<lparr>start = None, end' = None\<rparr> (Date_now w 0)))]"
      using calls_hedge_spot_first [of v rt e w "QStr (iso_date y m d)"]
      by (simp add: hv r)
    finally show "take 1 (map url (calls (hedge_volume v rt e w req))) =
              [''https://api.binance.com/api/v3/myTrades?'' @
               ''startTime=NaN&endTime=NaN&timestamp='' @ String_int (Date_now w 0) @
               ''&signature='' @
               hmac_sha256_hex rt (BINANCE_API_SECRET e)
                 (''startTime=NaN&endTime=NaN&timestamp='' @ String_int (Date_now w 0))]"
      by (simp add: signed_call_def trades_qs_def String_time_def hmac_def)
  qed
  moreover have "checkAuth e req' = None \<and> BINANCE_API_KEY e \<noteq> [] \<and>
          BINANCE_API_SECRET e \<noteq> [] \<and> query_date req' = Some date \<and> date \<noteq> QStr [] \<longrightarrow>
            take 1 (calls (hedge_volume v rt e w req')) =
              [signed_call rt e ''https://api.binance.com/api/v3/myTrades?''
                 (trades_qs (dayRange v rt e date) (Date_now w 0))]"
  proof
    assume h: "checkAuth e req' = None \<and> BINANCE_API_KEY e \<noteq> [] \<and>
          BINANCE_API_SECRET e \<noteq> [] \<and> query_date req' = Some date \<and> date \<noteq> QStr []"
    then have "hedge_volume v rt e w req' = hedge_spot v rt e w date"
      by (intro hedge_volume_proceeds) simp_all
    then show "take 1 (calls (hedge_volume v rt e w req')) =
              [signed_call rt e ''https://api.binance.com/api/v3/myTrades?''
                 (trades_qs (dayRange v rt e date) (Date_now w 0))]"
      by (simp only: calls_hedge_spot_first)
  qed
  ultimately show ?thesis
    using a b by simp
qed

lemma iso_date_2025_13_01: "iso_date 2025 13 1 = ''2025-13-01''"
  by (simp add: iso_date_def two_digit_text_def digit_char_def)

lemma thirteenth_month:
  "checkAuth sample_env thirteenth_month_request = None"
  "query_date thirteenth_month_request = Some (QStr ''2025-13-01'')"
  by (simp_all add: thirteenth_month_request_def env_defs sample_request_def checkAuth_def
      supplied_key_def)

lemma quiet_world_fetch: "fetch quiet_world k = Reply 200 (Inr (JArr []))"
  by (simp add: quiet_world_def)

lemma sumQuoteQty_empty: "sumQuoteQty (JArr []) = Inr (Finite 0)"
  by (simp add: sumQuoteQty_def)

lemmas String_int_defs = String_int_def String_nat.simps digit_char_def

theorem invalid_date_gives_NaN_range_witness:
  "getDayRange sample_runtime sample_env (QStr ''2025-13-01'') = \<lparr>start = None, end' = None\<rparr> \<and>
   getDayRangeUTC sample_runtime (QStr ''2025-13-01'') = \<lparr>start = None, end' = None\<rparr> \<and>
   take 1 (map url (calls (hedge_volume Part_000 sample_runtime sample_env quiet_world
     thirteenth_month_request))) =
     [''https://api.binance.com/api/v3/myTrades?startTime=NaN&endTime=NaN'' @
      ''&timestamp=1735700000000&signature='' @
      ''hmac(api-secret,startTime=NaN&endTime=NaN&timestamp=1735700000000)'']"
proof -
  have a: "(8::real) * 4 = of_int 32"
    by simp
  have o: "(13::nat) = 0 \<or> 12 < (13::nat) \<or> (1::nat) = 0 \<or> 31 < (1::nat)"
    by simp
  have n: "String_int (Date_now quiet_world 0) = ''1735700000000''"
    by (simp add: quiet_world_def String_int_defs)
  show ?thesis
    using invalid_date_gives_NaN_range [OF sample_tz a _ _ _ _ o, of 2025 sample_runtime
        thirteenth_month_request Part_000 quiet_world, unfolded iso_date_2025_13_01]
      thirteenth_month sample_keys
    by (simp add: n sample_runtime_def env_defs)
qed

text \<open>
  The claim as it was stated fails: for the date 2025-13-01 the resolvers return a pair of
  \<open>NaN\<close> and no error, and \<^verbatim>\<open>/hedge-volume\<close> sends its two signed requests and answers 200
  with the volumes the upstream replies give.
\<close>

theorem invalid_date_is_not_rejected:
  "getDayRange sample_runtime sample_env (QStr ''2025-13-01'') = \<lparr>start = None, end' = None\<rparr> \<and>
   getDayRangeUTC sample_runtime (QStr ''2025-13-01'') = \<lparr>start = None, end' = None\<rparr> \<and>
   status (hedge_volume Part_000 sample_runtime sample_env quiet_world
     thirteenth_month_request) = 200 \<and>
   body (hedge_volume Part_000 sample_runtime sample_env quiet_world
     thirteenth_month_request) =
     JObj [(''date'', JStr ''2025-13-01''), (''spotHedgeVolumeUSDT'', JNum (Finite 0)),
           (''futuresHedgeVolumeUSDT'', JNum (Finite 0))] \<and>
   length (calls (hedge_volume Part_000 sample_runtime sample_env quiet_world
     thirteenth_month_request)) = 2"
proof -
  have a: "(8::real) * 4 = of_int 32"
    by simp
  have o: "(13::nat) = 0 \<or> 12 < (13::nat) \<or> (1::nat) = 0 \<or> 31 < (1::nat)"
    by simp
  note r = getDayRange_out_of_bounds [OF sample_tz a _ _ _ _ o, of 2025 sample_runtime,
      unfolded iso_date_2025_13_01]
  note u = getDayRangeUTC_out_of_bounds [OF _ _ _ o, of 2025 sample_runtime,
      unfolded iso_date_2025_13_01]
  have d: "QStr ''2025-13-01'' \<noteq> QStr []"
    by simp
  note hv = hedge_volume_proceeds [OF thirteenth_month(1) sample_keys thirteenth_month(2) d]
  note ans = hedge_spot_answer [OF quiet_world_fetch quiet_world_fetch sumQuoteQty_empty
      sumQuoteQty_empty]
  show ?thesis
    using r u
    by (simp add: hv ans hedge_body_def Number_toFixed2_0 del: Number_toFixed2.simps)
qed

section \<open>The aggregate of a trade list\<close>

lemma StringToNumber_empty: "StringToNumber [] = Finite 0"
  by (simp add: number_defs)

lemma falsy_counts_zero:
  assumes "\<not> truthy x"
  shows "(case ToNumber x of Inl ex \<Rightarrow> Finite 0 | Inr n \<Rightarrow> if n = NaN then Finite 0 else n) =
           Finite 0"
  using assms by (cases x) (auto simp add: StringToNumber_empty)

lemma number_or_0_plain:
  assumes "plain_record t"
  shows "number_or_0 t ''quoteQty'' = Inr (spec_quoteQty t)"
proof (cases "get_prop t ''quoteQty''")
  case (Inl ex)
  then show ?thesis
    using assms by (simp add: plain_record_def)
next
  case (Inr x)
  show ?thesis
  proof (cases "truthy x")
    case True
    then show ?thesis
      using assms Inr
      by (auto simp add: plain_record_def number_or_0_def spec_quoteQty_def bind_def or_else_def
          split: sum.splits)
  next
    case False
    then show ?thesis
      using Inr falsy_counts_zero [OF False]
      by (simp add: number_or_0_def spec_quoteQty_def bind_def or_else_def)
  qed
qed

lemma sum_loop_plain:
  "list_all plain_record ts \<Longrightarrow> sum_loop v ts = Inr (foldl add v (map spec_quoteQty ts))"
  by (induction ts arbitrary: v) (simp_all add: number_or_0_plain)

lemma sumQuoteQty_plain:
  "list_all plain_record ts \<Longrightarrow> sumQuoteQty (JArr ts) = Inr (spec_sum ts)"
  by (simp add: sumQuoteQty_def spec_sum_def sum_loop_plain)

lemma add_finite_not_NaN: "v \<noteq> NaN \<Longrightarrow> add v (Finite a) \<noteq> NaN"
  by (cases v) (simp_all add: round64_not_NaN)

lemma foldl_add_not_NaN:
  "v \<noteq> NaN \<Longrightarrow> list_all finite_record ts \<Longrightarrow> foldl add v (map spec_quoteQty ts) \<noteq> NaN"
proof (induction ts arbitrary: v)
  case Nil
  then show ?case
    by simp
next
  case (Cons t ts)
  from Cons.prems(2) obtain a where a: "spec_quoteQty t = Finite a"
    by (auto simp add: finite_record_def split: number.splits)
  have "add v (spec_quoteQty t) \<noteq> NaN"
    unfolding a by (rule add_finite_not_NaN [OF Cons.prems(1)])
  then show ?case
    using Cons.IH Cons.prems(2) by simp
qed

lemma spec_sum_not_NaN: "list_all finite_record ts \<Longrightarrow> spec_sum ts \<noteq> NaN"
  by (simp add: spec_sum_def foldl_add_not_NaN)

text \<open>
  \<^verbatim>\<open>Number(x.toFixed(2))\<close> is the binary64 number of a decimal with two places that is
  nearest to \<open>x\<close>.
\<close>

lemma Number_toFixed2_nearest:
  assumes "\<bar>s\<bar> < 10 ^ 21"
  shows "\<exists>n::int. Number_toFixed2 (Finite s) = round64 (of_int n / 100) \<and>
           \<bar>of_int n / 100 - s\<bar> \<le> 1 / 200"
proof -
  define h where "h = toFixed2_hundredths s"
  have b: "\<bar>s\<bar> * 100 - 1 / 2 < of_int h" "of_int h \<le> \<bar>s\<bar> * 100 + 1 / 2"
    unfolding h_def toFixed2_hundredths_def by linarith+
  have r: "Number_toFixed2 (Finite s) = round64 (sgn s * of_int h / 100)"
    using assms by (simp add: h_def)
  consider "s < 0" | "s = 0" | "0 < s"
    by linarith
  then show ?thesis
  proof cases
    case 1
    have "Number_toFixed2 (Finite s) = round64 (of_int (- h) / 100)"
      unfolding r using 1 by simp
    moreover have "\<bar>- real_of_int h / 100 - s\<bar> \<le> 1 / 200"
      using 1 b by linarith
    then have "\<bar>of_int (- h) / 100 - s\<bar> \<le> 1 / 200"
      by simp
    ultimately show ?thesis
      by blast
  next
    case 2
    have "Number_toFixed2 (Finite s) = round64 (of_int 0 / 100)"
      unfolding r using 2 by simp
    moreover have "\<bar>of_int 0 / 100 - s\<bar> \<le> 1 / 200"
      using 2 by simp
    ultimately show ?thesis
      by blast
  next
    case 3
    have "Number_toFixed2 (Finite s) = round64 (of_int h / 100)"
      unfolding r using 3 by simp
    moreover have "\<bar>real_of_int h / 100 - s\<bar> \<le> 1 / 200"
      using 3 b by linarith
    ultimately show ?thesis
      by blast
  qed
qed

text \<open>
  Claim C2, as amended. Take a list of trade records, each a JSON value other than \<open>null\<close>
  whose \<^verbatim>\<open>quoteQty\<close> is missing or falsy (\<open>null\<close>, \<open>false\<close>, \<open>0\<close>, \<open>NaN\<close>, the empty text) or
  converts under \<^verbatim>\<open>Number\<close> to a number that is not \<open>NaN\<close>. The aggregation raises no
  exception and returns the sum, in the order of the list and in binary64 arithmetic, of
  \<^verbatim>\<open>Number(record.quoteQty)\<close> with zero for a field that is missing or falsy. When each
  record counts as a finite number, the total is not \<open>NaN\<close>. The volume of each side in the
  answer of \<^verbatim>\<open>/hedge-volume\<close> is \<^verbatim>\<open>Number(total.toFixed(2))\<close>: for a total below \<open>10\<^sup>2\<^sup>1\<close> in
  magnitude, the binary64 number of a decimal \<open>n / 100\<close> that is within half a hundredth
  of the total.
\<close>

theorem aggregation_of_plain_records:
  assumes "list_all plain_record ts"
  shows "sumQuoteQty (JArr ts) = Inr (spec_sum ts) \<and>
         (list_all finite_record ts \<longrightarrow> spec_sum ts \<noteq> NaN) \<and>
         (\<bar>s\<bar> < 10 ^ 21 \<longrightarrow>
            (\<exists>n::int. Number_toFixed2 (Finite s) = round64 (of_int n / 100) \<and>
               \<bar>of_int n / 100 - s\<bar> \<le> 1 / 200)) \<and>
         (checkAuth e req = None \<and> BINANCE_API_KEY e \<noteq> [] \<and> BINANCE_API_SECRET e \<noteq> [] \<and>
          query_date req = Some date \<and> date \<noteq> QStr [] \<and>
          fetch w 0 = Reply st1 (Inr (JArr ts)) \<and> fetch w 1 = Reply st2 (Inr (JArr us)) \<and>
          list_all plain_record us \<longrightarrow>
            status (hedge_volume v rt e w req) = 200 \<and>
            body (hedge_volume v rt e w req) =
              JObj [(''date'', js_of_qval date),
                    (''spotHedgeVolumeUSDT'', JNum (Number_toFixed2 (spec_sum ts))),
                    (''futuresHedgeVolumeUSDT'', JNum (Number_toFixed2 (spec_sum us)))])"
proof (intro conjI impI)
  show "sumQuoteQty (JArr ts) = Inr (spec_sum ts)"
    by (rule sumQuoteQty_plain [OF assms])
next
  assume "list_all finite_record ts"
  then show "spec_sum ts \<noteq> NaN"
    by (rule spec_sum_not_NaN)
next
  assume "\<bar>s\<bar> < 10 ^ 21"
  then show "\<exists>n::int. Number_toFixed2 (Finite s) = round64 (of_int n / 100) \<and>
               \<bar>of_int n / 100 - s\<bar> \<le> 1 / 200"
    by (rule Number_toFixed2_nearest)
next
  assume h: "checkAuth e req = None \<and> BINANCE_API_KEY e \<noteq> [] \<and> BINANCE_API_SECRET e \<noteq> [] \<and>
          query_date req = Some date \<and> date \<noteq> QStr [] \<and>
          fetch w 0 = Reply st1 (Inr (JArr ts)) \<and> fetch w 1 = Reply st2 (Inr (JArr us)) \<and>
          list_all plain_record us"
  then have hv: "hedge_volume v rt e w req = hedge_spot v rt e w date"
    by (intro hedge_volume_proceeds) simp_all
  from h have f: "fetch w 0 = Reply st1 (Inr (JArr ts))" "fetch w 1 = Reply st2 (Inr (JArr us))"
    by simp_all
  from h have u: "sumQuoteQty (JArr us) = Inr (spec_sum us)"
    by (intro sumQuoteQty_plain) simp
  note ans = hedge_spot_answer [OF f sumQuoteQty_plain [OF assms] u, of v rt e date]
  show "status (hedge_volume v rt e w req) = 200"
    and "body (hedge_volume v rt e w req) =
              JObj [(''date'', js_of_qval date),
                    (''spotHedgeVolumeUSDT'', JNum (Number_toFixed2 (spec_sum ts))),
                    (''futuresHedgeVolumeUSDT'', JNum (Number_toFixed2 (spec_sum us)))]"
    by (simp_all add: hv ans hedge_body_def)
qed

lemma example_records:
  "list_all plain_record
     [JObj [(''quoteQty'', JStr ''10.5'')], JObj [(''quoteQty'', JNull)],
      JObj [(''quoteQty'', JStr ''2'')]]"
  "list_all finite_record
     [JObj [(''quoteQty'', JStr ''10.5'')], JObj [(''quoteQty'', JNull)],
      JObj [(''quoteQty'', JStr ''2'')]]"
  "spec_sum
     [JObj [(''quoteQty'', JStr ''10.5'')], JObj [(''quoteQty'', JNull)],
      JObj [(''quoteQty'', JStr ''2'')]] = Finite (25 / 2)"
  by (simp_all add: plain_record_def finite_record_def spec_sum_def spec_quoteQty_def bind_def
      StringToNumber_samples round64_samples)

lemma Number_toFixed2_example: "Number_toFixed2 (Finite (25 / 2)) = Finite (25 / 2)"
  by (simp add: toFixed2_hundredths_def round64_samples)

theorem aggregation_of_plain_records_witness:
  "sumQuoteQty example_trades = Inr (Finite (25 / 2)) \<and>
   Number_toFixed2 (Finite (25 / 2)) = Finite (25 / 2) \<and>
   status (hedge_volume Part_000 sample_runtime sample_env (answering_world example_trades)
     sample_request) = 200 \<and>
   body (hedge_volume Part_000 sample_runtime sample_env (answering_world example_trades)
     sample_request) =
     JObj [(''date'', JStr ''2025-01-01''), (''spotHedgeVolumeUSDT'', JNum (Finite (25 / 2))),
           (''futuresHedgeVolumeUSDT'', JNum (Finite (25 / 2)))]"
proof -
  have b: "\<bar>25 / 2 :: real\<bar> < 10 ^ 21"
    by simp
  show ?thesis
    using aggregation_of_plain_records [OF example_records(1),
        where s = "25 / 2" and e = sample_env and req = sample_request
          and date = "QStr ''2025-01-01''" and w = "answering_world example_trades"
          and ?st1.0 = 200 and ?st2.0 = 200 and v = Part_000 and rt = sample_runtime
          and us = "[JObj [(''quoteQty'', JStr ''10.5'')], JObj [(''quoteQty'', JNull)],
                     JObj [(''quoteQty'', JStr ''2'')]]"]
      example_records sample_authorised sample_keys sample_date b
      answering_world_fetch [of example_trades]
    by (simp add: example_trades_def Number_toFixed2_example del: Number_toFixed2.simps)
qed

text \<open>
  The claim as it was stated fails: a record whose \<^verbatim>\<open>quoteQty\<close> is the text \<^verbatim>\<open>abc\<close> makes
  the total \<open>NaN\<close>, where the specification counts it as zero, and \<open>NaN\<close> is the volume that
  \<^verbatim>\<open>/hedge-volume\<close> answers.
\<close>

theorem unparseable_quoteQty_gives_NaN:
  "sumQuoteQty unparseable_trades = Inr NaN \<and>
   spec_sum [JObj [(''quoteQty'', JStr ''abc'')]] = Finite 0 \<and>
   status (hedge_volume Part_000 sample_runtime sample_env (answering_world unparseable_trades)
     sample_request) = 200 \<and>
   body (hedge_volume Part_000 sample_runtime sample_env (answering_world unparseable_trades)
     sample_request) =
     JObj [(''date'', JStr ''2025-01-01''), (''spotHedgeVolumeUSDT'', JNum NaN),
           (''futuresHedgeVolumeUSDT'', JNum NaN)]"
proof -
  have n: "sumQuoteQty unparseable_trades = Inr NaN"
    by (simp add: unparseable_trades_def sumQuoteQty_def number_or_0_def bind_def or_else_def
        StringToNumber_samples)
  have z: "spec_sum [JObj [(''quoteQty'', JStr ''abc'')]] = Finite 0"
    by (simp add: spec_sum_def spec_quoteQty_def bind_def StringToNumber_samples round64_0)
  note hv = hedge_volume_proceeds [OF sample_authorised sample_keys sample_date]
  note ans = hedge_spot_answer [OF answering_world_fetch answering_world_fetch n n]
  show ?thesis
    by (simp add: n z hv ans hedge_body_def)
qed

section \<open>The signed requests of every handler\<close>

lemma sample_day_range:
  "getDayRange sample_runtime sample_env (QStr ''2025-01-01'') =
     \<lparr>start = Some 1735660800000, end' = Some 1735747199000\<rparr>"
  "getDayRangeUTC sample_runtime (QStr ''2025-01-01'') =
     \<lparr>start = Some 1735689600000, end' = Some 1735775999000\<rparr>"
proof -
  have d: "(1::nat) \<le> days_in_month (int 2025) 1"
    by (simp add: days_in_month_def)
  have a: "(8::real) * 4 = of_int 32"
    by simp
  show "getDayRange sample_runtime sample_env (QStr ''2025-01-01'') =
     \<lparr>start = Some 1735660800000, end' = Some 1735747199000\<rparr>"
    using getDayRange_quarters [OF sample_tz a _ _ _ _ _ d, of sample_runtime,
        unfolded iso_date_2025_01_01]
    by (simp add: date_defs)
  show "getDayRangeUTC sample_runtime (QStr ''2025-01-01'') =
     \<lparr>start = Some 1735689600000, end' = Some 1735775999000\<rparr>"
    using getDayRangeUTC_date [OF _ _ _ _ d, of sample_runtime, unfolded iso_date_2025_01_01]
    by (simp add: date_defs)
qed

lemma sample_clock:
  "String_int (Date_now quiet_world 0) = ''1735700000000''"
  "String_int (Date_now quiet_world (Suc 0)) = ''1735700000001''"
  by (simp_all add: quiet_world_def String_int_defs)

lemma sample_bounds:
  "String_int 1735660800000 = ''1735660800000''" "String_int 1735747199000 = ''1735747199000''"
  "String_int 1735689600000 = ''1735689600000''" "String_int 1735775999000 = ''1735775999000''"
  by (simp_all add: String_int_defs)

text \<open>
  Claim C3 at a sample request. Each signed request reads the clock anew and carries the
  keyed hash of its own query text, and the two balance handlers sign
  \<^verbatim>\<open>recvWindow=5000&timestamp=...\<close>; the two trade queries of \<^verbatim>\<open>/hedge-volume\<close> sign
  \<^verbatim>\<open>startTime=...&endTime=...&timestamp=...\<close>, with no receive window, in both sources.
\<close>

theorem hedge_volume_queries_have_no_recvWindow:
  "map url (calls (balance sample_runtime sample_env quiet_world sample_request)) =
     [''https://api.binance.com/api/v3/account?recvWindow=5000&timestamp=1735700000000'' @
      ''&signature=hmac(api-secret,recvWindow=5000&timestamp=1735700000000)''] \<and>
   map url (calls (futures_balance sample_runtime sample_env quiet_world sample_request)) =
     [''https://fapi.binance.com/fapi/v2/balance?recvWindow=5000&timestamp=1735700000000'' @
      ''&signature=hmac(api-secret,recvWindow=5000&timestamp=1735700000000)''] \<and>
   map url (calls (hedge_volume Part_000 sample_runtime sample_env quiet_world
     sample_request)) =
     [''https://api.binance.com/api/v3/myTrades?'' @
      ''startTime=1735660800000&endTime=1735747199000&timestamp=1735700000000'' @
      ''&signature=hmac(api-secret,'' @
      ''startTime=1735660800000&endTime=1735747199000&timestamp=1735700000000)'',
      ''https://fapi.binance.com/fapi/v1/userTrades?'' @
      ''startTime=1735660800000&endTime=1735747199000&timestamp=1735700000001'' @
      ''&signature=hmac(api-secret,'' @
      ''startTime=1735660800000&endTime=1735747199000&timestamp=1735700000001)''] \<and>
   map url (calls (hedge_volume Index_js sample_runtime sample_env quiet_world
     sample_request)) =
     [''https://api.binance.com/api/v3/myTrades?'' @
      ''startTime=1735689600000&endTime=1735775999000&timestamp=1735700000000'' @
      ''&signature=hmac(api-secret,'' @
      ''startTime=1735689600000&endTime=1735775999000&timestamp=1735700000000)'',
      ''https://fapi.binance.com/fapi/v1/userTrades?'' @
      ''startTime=1735689600000&endTime=1735775999000&timestamp=1735700000001'' @
      ''&signature=hmac(api-secret,'' @
      ''startTime=1735689600000&endTime=1735775999000&timestamp=1735700000001)'']"
proof -
  have k: "\<not> keys_missing sample_env"
    using sample_keys by (simp add: keys_missing_def)
  note b = calls_balance [OF sample_authorised k, of sample_runtime quiet_world]
  note hv = hedge_volume_proceeds [OF sample_authorised sample_keys sample_date]
  note c = calls_hedge_spot_both [OF quiet_world_fetch sumQuoteQty_empty]
  have s: "BINANCE_API_SECRET sample_env = ''api-secret''"
    by (simp add: env_defs)
  have h: "hmac_sha256_hex sample_runtime = (\<lambda>key message. ''hmac('' @ key @ '','' @ message @ '')'')"
    by (simp add: sample_runtime_def)
  show ?thesis
    by (simp add: b hv c signed_call_def balance_qs_def trades_qs_def dayRange_def
        sample_day_range String_time_def sample_clock sample_bounds hmac_def s h)
qed

end
